theory Spec2Isabelle
  imports Main "HOL-Library.Code_Target_Nat"
begin

section \<open>JavaScript strings\<close>

text \<open>
  A JavaScript string is a sequence of UTF-16 code units; \<open>length\<close>, \<open>substring\<close>,
  \<open>split\<close>, \<open>trim\<close> and the regular expressions of the source all work on code units.
  A code unit is a number (below 65536; no function here depends on the bound), and a
  string is a list of code units. \<open>str\<close> writes an ASCII literal as such a list and \<open>chr\<close>
  one ASCII character as its code unit.
\<close>

type_synonym jsstring = "nat list"

abbreviation chr :: "char \<Rightarrow> nat" where
  "chr c \<equiv> of_char c"

abbreviation str :: "string \<Rightarrow> jsstring" where
  "str s \<equiv> map of_char s"

text \<open>
  The code units that \<open>String.prototype.trim\<close>, \<open>parseInt\<close> and the class \<open>\s\<close> of a
  regular expression take as white space: the white space characters TAB, VT, FF, SP,
  NBSP (U+00A0), U+1680, U+2000 to U+200A, U+202F, U+205F, U+3000 and U+FEFF, and the
  line terminators LF, CR, U+2028 and U+2029.
\<close>

definition isSpace :: "nat \<Rightarrow> bool" where
  "isSpace u =
     (u \<in> set [0x09, 0x0A, 0x0B, 0x0C, 0x0D, 0x20, 0xA0, 0x1680, 0x2028, 0x2029, 0x202F,
                0x205F, 0x3000, 0xFEFF]
      \<or> (0x2000 \<le> u \<and> u \<le> 0x200A))"

definition trimStart :: "jsstring \<Rightarrow> jsstring" where
  "trimStart s = dropWhile isSpace s"

definition trimEnd :: "jsstring \<Rightarrow> jsstring" where
  "trimEnd s = rev (dropWhile isSpace (rev s))"

definition trim :: "jsstring \<Rightarrow> jsstring" where
  "trim s = trimEnd (trimStart s)"

definition lowerChar :: "nat \<Rightarrow> nat" where
  "lowerChar c =
     (case map_of (zip (str ''ABCDEFGHIJKLMNOPQRSTUVWXYZ'') (str ''abcdefghijklmnopqrstuvwxyz'')) c of
        None \<Rightarrow> c
      | Some l \<Rightarrow> l)"

text \<open>
  \<open>toLowerCase\<close> is used by the source only in the tests
  \<open>part.toLowerCase().startsWith("path=")\<close> and \<open>...startsWith("domain=")\<close>. It maps
  \<open>A..Z\<close> to \<open>a..z\<close>; the code units outside ASCII are left as they are here. The only
  characters outside ASCII that JavaScript maps to ASCII letters are U+212A (to \<open>k\<close>) and
  U+0130 (to \<open>i\<close> followed by U+0307), and neither can complete one of these two
  prefixes, so the two tests have the same outcome as in the source for every string.
\<close>

definition toLowerCase :: "jsstring \<Rightarrow> jsstring" where
  "toLowerCase s = map lowerChar s"

text \<open>\<open>s.startsWith(p)\<close>, \<open>s.substring(n)\<close> and \<open>s.substring(0, n)\<close>.\<close>

definition startsWith :: "jsstring \<Rightarrow> jsstring \<Rightarrow> bool" where
  "startsWith s p = (take (length p) s = p)"

definition substring :: "nat \<Rightarrow> jsstring \<Rightarrow> jsstring" where
  "substring n s = drop n s"

text \<open>\<open>s.includes(t)\<close>: \<open>t\<close> occurs in \<open>s\<close> as a contiguous substring.\<close>

fun includes_str :: "jsstring \<Rightarrow> jsstring \<Rightarrow> bool" where
  "includes_str [] t = (t = [])"
| "includes_str (x # xs) t = (startsWith (x # xs) t \<or> includes_str xs t)"

text \<open>
  \<open>s.split(c)\<close> for a one-character separator never returns an empty array, so it is
  modelled by \<open>splitOn\<close>, which returns the first piece and the list of the others.
  \<open>splitWhen\<close> cuts at every character that satisfies a test.
\<close>

fun splitWhen :: "(nat \<Rightarrow> bool) \<Rightarrow> jsstring \<Rightarrow> jsstring \<times> jsstring list" where
  "splitWhen p [] = ([], [])"
| "splitWhen p (x # xs) =
     (let (h, t) = splitWhen p xs in if p x then ([], h # t) else (x # h, t))"

definition splitOn :: "nat \<Rightarrow> jsstring \<Rightarrow> jsstring \<times> jsstring list" where
  "splitOn c s = splitWhen (\<lambda>x. x = c) s"

definition split :: "nat \<Rightarrow> jsstring \<Rightarrow> jsstring list" where
  "split c s = (let (h, t) = splitOn c s in h # t)"

text \<open>\<open>xs.join(sep)\<close>.\<close>

fun join :: "jsstring \<Rightarrow> jsstring list \<Rightarrow> jsstring" where
  "join sep [] = []"
| "join sep [x] = x"
| "join sep (x # y # ys) = x @ sep @ join sep (y # ys)"

section \<open>CookieJar\<close>

text \<open>
  A stored cookie is the object \<open>{value, domain, path}\<close>. The value is the second
  element of a destructured array and is \<open>undefined\<close> when the array has one element
  only; \<open>None\<close> stands for \<open>undefined\<close>.

  The jar is a JavaScript \<open>Map\<close> from cookie names to cookies. A \<open>Map\<close> iterates in
  insertion order and holds each key once, so it is modelled as an association list in
  insertion order; \<open>Map_set\<close> is \<open>Map.prototype.set\<close> (an existing key keeps its
  position, a new key goes to the end).
\<close>

record cookie =
  "value" :: "jsstring option"
  domain :: jsstring
  path :: jsstring

type_synonym jar = "(jsstring \<times> cookie) list"

fun Map_set :: "'k \<Rightarrow> 'v \<Rightarrow> ('k \<times> 'v) list \<Rightarrow> ('k \<times> 'v) list" where
  "Map_set k v [] = [(k, v)]"
| "Map_set k v ((k', v') # m) = (if k' = k then (k, v) # m else (k', v') # Map_set k v m)"

text \<open>\<open>new Map(entries)\<close>: the entries are set one after the other on an empty map.\<close>

definition Map_new :: "('k \<times> 'v) list \<Rightarrow> ('k \<times> 'v) list" where
  "Map_new entries = fold (\<lambda>(k, v) m. Map_set k v m) entries []"

text \<open>The state a \<open>Map\<close> can be in: no key occurs twice.\<close>

definition wf_jar :: "jar \<Rightarrow> bool" where
  "wf_jar j = distinct (map fst j)"

text \<open>
  One attribute of a \<open>Set-Cookie\<close> value, the body of the inner loop of \<open>setCookie\<close>:
  the pair is \<open>(cookiePath, cookieDomain)\<close>.
\<close>

definition scanAttr :: "jsstring \<Rightarrow> jsstring \<times> jsstring \<Rightarrow> jsstring \<times> jsstring" where
  "scanAttr part pd =
     (if startsWith (toLowerCase part) (str ''path='') then (substring 5 part, snd pd)
      else if startsWith (toLowerCase part) (str ''domain='') then (fst pd, substring 7 part)
      else pd)"

text \<open>One \<open>Set-Cookie\<close> value: the name and the cookie that \<open>setCookie\<close> stores for it.\<close>

definition parseSetCookie :: "jsstring \<Rightarrow> jsstring \<Rightarrow> jsstring \<times> cookie" where
  "parseSetCookie header dm =
     (let (first, others) = splitOn (chr CHR '';'') header;
          nameValue = trim first;
          parts = map trim others;
          (name, vs) = splitOn (chr CHR ''='') nameValue;
          v = (case vs of [] \<Rightarrow> None | x # _ \<Rightarrow> Some x);
          (cookiePath, cookieDomain) = fold scanAttr parts ((str ''/''), dm)
      in (name, \<lparr>value = v, domain = cookieDomain, path = cookiePath\<rparr>))"

text \<open>
  The \<open>set-cookie\<close> header of a response is a string, an array of strings, or absent.
\<close>

datatype setCookieHeader = Single jsstring | Multi "jsstring list"

fun headerList :: "setCookieHeader \<Rightarrow> jsstring list" where
  "headerList (Single h) = [h]"
| "headerList (Multi hs) = hs"

definition setCookie :: "setCookieHeader \<Rightarrow> jsstring \<Rightarrow> jar \<Rightarrow> jar" where
  "setCookie setCookieHeader dm j =
     fold (\<lambda>header m. Map_set (fst (parseSetCookie header dm)) (snd (parseSetCookie header dm)) m)
       (headerList setCookieHeader) j"

text \<open>A template literal renders \<open>undefined\<close> as the text \<open>undefined\<close>.\<close>

definition renderValue :: "jsstring option \<Rightarrow> jsstring" where
  "renderValue v = (case v of None \<Rightarrow> (str ''undefined'') | Some s \<Rightarrow> s)"

definition getCookieHeader :: "jsstring \<Rightarrow> jar \<Rightarrow> jsstring" where
  "getCookieHeader dm j =
     join (str ''; '')
       (map (\<lambda>(name, c). name @ (str ''='') @ renderValue (value c))
          (filter (\<lambda>(name, c). includes_str dm (domain c) \<or> includes_str (domain c) dm) j))"

definition jar_set :: "jsstring \<Rightarrow> jsstring \<Rightarrow> jsstring \<Rightarrow> jsstring \<Rightarrow> jar \<Rightarrow> jar" where
  "jar_set name v dm p j = Map_set name \<lparr>value = Some v, domain = dm, path = p\<rparr> j"

definition jar_get :: "jsstring \<Rightarrow> jar \<Rightarrow> jsstring option" where
  "jar_get name j = (case map_of j name of None \<Rightarrow> None | Some c \<Rightarrow> value c)"

definition jar_clear :: "jar \<Rightarrow> jar" where
  "jar_clear j = []"

definition jar_export :: "jar \<Rightarrow> (jsstring \<times> cookie) list" where
  "jar_export j = j"

definition jar_import :: "(jsstring \<times> cookie) list \<Rightarrow> jar" where
  "jar_import data = Map_new data"

section \<open>The client: session, cookie jar and persisted state\<close>

text \<open>
  \<open>CookieSession\<close> is the interface of that name. The extension's \<open>globalState\<close> is
  used under three keys only (\<open>openjudge.session\<close>, \<open>openjudge.cookieJar\<close>,
  \<open>openjudge.credentials\<close>); \<open>update(key, undefined)\<close> removes the key, which is
  \<open>None\<close> here. A write to \<open>globalState\<close> is taken to succeed.
\<close>

record CookieSession =
  PHPSESSID :: jsstring
  language :: jsstring

record globalState =
  gs_session :: "CookieSession option"
  gs_cookieJar :: "(jsstring \<times> cookie) list option"
  gs_credentials :: "(jsstring \<times> jsstring) option"

record client =
  session :: "CookieSession option"
  cookieJar :: jar
  store :: globalState

definition clearSession :: "client \<Rightarrow> client" where
  "clearSession c =
     (let c1 = c\<lparr>session := None\<rparr>;
          c2 = c1\<lparr>cookieJar := jar_clear (cookieJar c1)\<rparr>;
          c3 = c2\<lparr>store := (store c2)\<lparr>gs_session := None\<rparr>\<rparr>;
          c4 = c3\<lparr>store := (store c3)\<lparr>gs_cookieJar := None\<rparr>\<rparr>
      in c4\<lparr>store := (store c4)\<lparr>gs_credentials := None\<rparr>\<rparr>)"

definition isLoggedIn :: "client \<Rightarrow> bool" where
  "isLoggedIn c = (session c \<noteq> None)"

subsection \<open>makeRequest\<close>

text \<open>
  What the network gives back for one request is an input of the model: either the
  request fails (\<open>NetworkError\<close>, the message of the exception), or a response arrives
  with its status code, its headers and its body. Reading the body (and decompressing it
  when \<open>content-encoding\<close> is \<open>gzip\<close> or \<open>deflate\<close>) is done by the HTTP and zlib
  libraries; its outcome is the field \<open>bodyRead\<close>: \<open>Inr\<close> the text, or \<open>Inl\<close> the message
  of the exception raised while reading. The request headers that \<open>buildHeaders\<close>
  computes do not influence what \<open>makeRequest\<close> does with the response.
\<close>

record headers =
  set_cookie :: "setCookieHeader option"
  content_encoding :: "jsstring option"
  others :: "(jsstring \<times> jsstring) list"

record response =
  statusCode :: nat
  responseHeaders :: headers
  bodyRead :: "jsstring + jsstring"

datatype fetched = NetworkError jsstring | Response response

record result =
  body :: jsstring
  headers :: headers
  status :: nat

text \<open>The decimal digits of a number, as a template literal prints it.\<close>

definition digitChar :: "nat \<Rightarrow> nat" where
  "digitChar d = (str ''0123456789'') ! (d mod 10)"

function decimal :: "nat \<Rightarrow> jsstring" where
  "decimal n = (if n < 10 then [digitChar n] else decimal (n div 10) @ [digitChar n])"
  by pat_completeness auto
termination
  by (relation "measure id") auto

text \<open>\<open>if (setCookie)\<close>: an absent header and the empty string are falsy, an array is not.\<close>

fun truthyHeader :: "setCookieHeader \<Rightarrow> bool" where
  "truthyHeader (Single h) = (h \<noteq> [])"
| "truthyHeader (Multi hs) = True"

text \<open>The message of the error thrown for a status of 400 or more.\<close>

definition httpError :: "nat \<Rightarrow> jsstring \<Rightarrow> jsstring" where
  "httpError code b = (str ''HTTP '') @ decimal code @ (str '': '') @ take 200 b"

text \<open>
  \<open>makeRequest\<close> for a URL with host name \<open>host\<close>: the new client state, and \<open>Inl\<close> the
  message of the error thrown or \<open>Inr\<close> the value returned (its field \<open>status\<close> is the
  \<open>statusCode\<close> of the source). The \<open>catch\<close> block logs and throws the same error again.
\<close>

definition makeRequest :: "jsstring \<Rightarrow> fetched \<Rightarrow> client \<Rightarrow> client \<times> (jsstring + result)" where
  "makeRequest host f c =
     (case f of
        NetworkError msg \<Rightarrow> (c, Inl msg)
      | Response r \<Rightarrow>
          (let c1 = (case set_cookie (responseHeaders r) of
                       None \<Rightarrow> c
                     | Some setCookieHdr \<Rightarrow>
                         if truthyHeader setCookieHdr
                         then (let j = setCookie setCookieHdr host (cookieJar c)
                               in c\<lparr>cookieJar := j,
                                    store := (store c)\<lparr>gs_cookieJar := Some (jar_export j)\<rparr>\<rparr>)
                         else c)
           in case bodyRead r of
                Inl msg \<Rightarrow> (c1, Inl msg)
              | Inr b \<Rightarrow>
                  if statusCode r \<ge> 400 then (c1, Inl (httpError (statusCode r) b))
                  else (c1, Inr \<lparr>body = b, headers = responseHeaders r, status = statusCode r\<rparr>)))"

subsection \<open>loginWithCookie\<close>

text \<open>
  An \<open>AuthResponse\<close> carries a result, a message and an optional hint. The messages and
  hints of \<open>loginWithCookie\<close> are fixed texts; each is a constructor here, named after the
  branch that returns it: the user did not choose to continue, no cookie string was
  entered, no \<open>PHPSESSID\<close> was found in the cookie string, login succeeded; the cookie
  was saved and verified, saved with unknown verification state, saved but not verified.
\<close>

datatype authResult = SUCCESS | ERROR

datatype authMessage = UserCancelled | NoCookieEntered | PhpsessidNotFound | LoginSucceeded

datatype authHint = SavedVerified | SavedUnknown | SavedUnverified

record AuthResponse =
  result :: authResult
  message :: authMessage
  hint :: "authHint option"

text \<open>\<open>const [name, ...valueParts] = cookie.split("="); value = valueParts.join("=")\<close>.\<close>

definition parseCookiePair :: "jsstring \<Rightarrow> jsstring \<times> jsstring" where
  "parseCookiePair cookie = (let (name, valueParts) = splitOn (chr CHR ''='') cookie in (name, join (str ''='') valueParts))"

text \<open>The body of the loop over the cookies; the pair is \<open>(phpSessId, languageValue)\<close>.\<close>

definition scanCookie :: "jsstring \<Rightarrow> jsstring \<times> jsstring \<Rightarrow> jsstring \<times> jsstring" where
  "scanCookie cookie pl =
     (let (name, v) = parseCookiePair cookie
      in if trim name = (str ''PHPSESSID'') then (trim v, snd pl)
         else if trim name = (str ''language'') then (fst pl, trim v)
         else pl)"

definition parseCookieString :: "jsstring \<Rightarrow> jsstring \<times> jsstring" where
  "parseCookieString cookieString =
     fold scanCookie (map trim (split (chr CHR '';'') cookieString)) ([], (str ''zh_CN''))"

text \<open>
  \<open>loginWithCookie\<close>. Its inputs are what the dialogs and the configuration give:
  \<open>proceed\<close> (the user chose to continue), \<open>cookieString\<close> (the text of the input box,
  \<open>None\<close> when it was dismissed), \<open>configuredLanguage\<close> (the setting
  \<open>openjudge.interfaceLanguage\<close>) and \<open>verify\<close> (what the network gives back for the
  verification request).
\<close>

definition loginWithCookie ::
  "bool \<Rightarrow> jsstring option \<Rightarrow> jsstring option \<Rightarrow> fetched \<Rightarrow> client \<Rightarrow> client \<times> AuthResponse" where
  "loginWithCookie proceed cookieString configuredLanguage verify c =
     (if \<not> proceed then (c, \<lparr>result = ERROR, message = UserCancelled, hint = None\<rparr>)
      else case cookieString of
        None \<Rightarrow> (c, \<lparr>result = ERROR, message = NoCookieEntered, hint = None\<rparr>)
      | Some cs \<Rightarrow>
          if cs = [] then (c, \<lparr>result = ERROR, message = NoCookieEntered, hint = None\<rparr>)
          else
            (let (phpSessId, parsedLanguage) = parseCookieString cs
             in if phpSessId = [] then (c, \<lparr>result = ERROR, message = PhpsessidNotFound, hint = None\<rparr>)
                else
                  (let languageValue =
                         (case configuredLanguage of
                            None \<Rightarrow> parsedLanguage
                          | Some l \<Rightarrow> if l \<noteq> [] then l else parsedLanguage);
                       s = \<lparr>PHPSESSID = phpSessId, language = languageValue\<rparr>;
                       j = jar_set (str ''language'') languageValue (str ''openjudge.cn'') (str ''/'')
                             (jar_set (str ''PHPSESSID'') phpSessId (str ''openjudge.cn'') (str ''/'')
                                (jar_clear (cookieJar c)));
                       c1 = c\<lparr>session := Some s, cookieJar := j,
                               store := (store c)\<lparr>gs_session := Some s,
                                                    gs_cookieJar := Some (jar_export j)\<rparr>\<rparr>;
                       (c2, r) = makeRequest (str ''openjudge.cn'') verify c1
                   in (c2,
                       case r of
                         Inr resp \<Rightarrow>
                           if status resp = 200
                           then \<lparr>result = SUCCESS, message = LoginSucceeded, hint = Some SavedVerified\<rparr>
                           else \<lparr>result = SUCCESS, message = LoginSucceeded, hint = Some SavedUnknown\<rparr>
                       | Inl e \<Rightarrow>
                           \<lparr>result = SUCCESS, message = LoginSucceeded, hint = Some SavedUnverified\<rparr>))))"

section \<open>The submission status poll\<close>

text \<open>
  \<open>showSubmissionStatus\<close> keeps a counter \<open>attempts\<close> and a timer handle \<open>interval\<close>. The
  handle is declared before \<open>updateStatus\<close>, is \<open>undefined\<close> (\<open>NotSet\<close>) while the first
  \<open>updateStatus\<close> runs, and is assigned by \<open>setInterval\<close> after it; \<open>clearInterval\<close> stops
  the timer. \<open>requests\<close> counts the status pages fetched so far. One status request gives
  either a page, of which the poll uses the parsed status text, or an exception.
\<close>

datatype timer = NotSet | Running | Cleared

record poll =
  attempts :: nat
  interval :: timer
  requests :: nat

datatype page = Status jsstring | FetchFailed

definition maxAttempts :: nat where
  "maxAttempts = 30"

definition finalStatuses :: "jsstring list" where
  "finalStatuses = [(str ''Accepted''), (str ''Wrong Answer''), (str ''Time Limit Exceeded''),
                    (str ''Memory Limit Exceeded''), (str ''Runtime Error''),
                    (str ''Compile Error''), (str ''Presentation Error'')]"

text \<open>\<open>if (interval) clearInterval(interval)\<close>: nothing happens while the handle is unset.\<close>

definition clearIfSet :: "poll \<Rightarrow> poll" where
  "clearIfSet s = (if interval s = NotSet then s else s\<lparr>interval := Cleared\<rparr>)"

definition updateStatus :: "page \<Rightarrow> poll \<Rightarrow> poll" where
  "updateStatus pg s =
     (let s1 = s\<lparr>requests := requests s + 1\<rparr>
      in case pg of
           FetchFailed \<Rightarrow> clearIfSet s1
         | Status st \<Rightarrow>
             (let s2 = (if st \<in> set finalStatuses \<or> attempts s1 \<ge> maxAttempts
                        then clearIfSet s1 else s1)
              in s2\<lparr>attempts := attempts s2 + 1\<rparr>))"

text \<open>
  The timer: while it runs, each tick calls \<open>updateStatus\<close> on the next page. The pages
  are given as a function from the index of the request to what it returns. Each call
  is taken to finish before the next tick, and the panel is not disposed.
\<close>

function ticks :: "(nat \<Rightarrow> page) \<Rightarrow> poll \<Rightarrow> poll" where
  "ticks pages s =
     (if interval s = Running then ticks pages (updateStatus (pages (requests s)) s) else s)"
  by pat_completeness auto
termination
proof (relation "measure (\<lambda>(pages, s). if interval s = Running then Suc (Suc maxAttempts - attempts s) else 0)")
  show "wf (measure (\<lambda>(pages, s). if interval s = Running then Suc (Suc maxAttempts - attempts s) else 0))"
    by simp
next
  fix pages :: "nat \<Rightarrow> page" and s :: poll
  assume "interval s = Running"
  then show "((pages, updateStatus (pages (requests s)) s), (pages, s))
        \<in> measure (\<lambda>(pages, s). if interval s = Running then Suc (Suc maxAttempts - attempts s) else 0)"
    by (cases "pages (requests s)") (auto simp: updateStatus_def clearIfSet_def Let_def)
qed

text \<open>
  \<open>redirectUrl.split('/').filter(Boolean).pop()\<close>: the last non-empty piece of the URL,
  \<open>undefined\<close> when there is none.
\<close>

definition submissionIdOf :: "jsstring \<Rightarrow> jsstring option" where
  "submissionIdOf redirectUrl =
     (case filter (\<lambda>p. p \<noteq> []) (split (chr CHR ''/'') redirectUrl) of
        [] \<Rightarrow> None
      | p # ps \<Rightarrow> Some (last (p # ps)))"

text \<open>
  \<open>showSubmissionStatus\<close>: without a submission id it returns at once and no page is
  fetched; otherwise the first \<open>updateStatus\<close> runs, then the timer is started.
\<close>

definition showSubmissionStatus :: "jsstring \<Rightarrow> (nat \<Rightarrow> page) \<Rightarrow> poll" where
  "showSubmissionStatus redirectUrl pages =
     (let s0 = \<lparr>attempts = 0, interval = NotSet, requests = 0\<rparr>
      in case submissionIdOf redirectUrl of
           None \<Rightarrow> s0
         | Some submissionId \<Rightarrow>
             (let s1 = updateStatus (pages 0) s0;
                  s2 = s1\<lparr>interval := Running\<rparr>
              in ticks pages s2))"

section \<open>HtmlParser\<close>

subsection \<open>The document and the queries on it\<close>

text \<open>
  \<open>cheerio.load(html)\<close> parses the page; the parsers work on the parsed document only,
  through selectors, \<open>text()\<close>, \<open>attr()\<close>, \<open>html()\<close>, \<open>parent()\<close> and \<open>next()\<close>. The
  document is the input of the model: a forest of elements (tag name, attributes,
  children), text nodes and comments.
\<close>

datatype node = Element jsstring "(jsstring \<times> jsstring) list" "node list" | TextNode jsstring | Comment jsstring

fun children :: "node \<Rightarrow> node list" where
  "children (Element t a cs) = cs"
| "children (TextNode s) = []"
| "children (Comment s) = []"

fun isElement :: "node \<Rightarrow> bool" where
  "isElement (Element t a cs) = True"
| "isElement (TextNode s) = False"
| "isElement (Comment s) = False"

text \<open>\<open>attr(name)\<close> of one element; \<open>None\<close> is \<open>undefined\<close>.\<close>

fun attr :: "jsstring \<Rightarrow> node \<Rightarrow> jsstring option" where
  "attr name (Element t a cs) = map_of a name"
| "attr name (TextNode s) = None"
| "attr name (Comment s) = None"

text \<open>The text of a node: the text nodes below it, in document order.\<close>

fun textContent :: "node \<Rightarrow> jsstring" where
  "textContent (Element t a cs) = concat (map textContent cs)"
| "textContent (TextNode s) = s"
| "textContent (Comment s) = []"

text \<open>\<open>text()\<close> of a selection: the texts of its elements, one after the other.\<close>

definition text_of :: "node list \<Rightarrow> jsstring" where
  "text_of ns = concat (map textContent ns)"

text \<open>
  A compound selector is a list of conditions on one element: its tag name, one of its
  classes, its id, or the value of an attribute.
\<close>

datatype cond = Tag jsstring | Class jsstring | Id jsstring | Attr jsstring jsstring

text \<open>
  The selector engine tests a class with the regular expression
  \<open>(?:^|\s)name(?:$|\s)\<close> on the \<open>class\<close> attribute: the name is one of the pieces of the
  attribute cut at every white space character.
\<close>

definition classList :: "jsstring \<Rightarrow> jsstring list" where
  "classList v = (let (h, t) = splitWhen isSpace v in h # t)"

fun holds :: "node \<Rightarrow> cond \<Rightarrow> bool" where
  "holds (Element t a cs) (Tag t') = (t = t')"
| "holds (Element t a cs) (Class c) =
     (case map_of a (str ''class'') of None \<Rightarrow> False | Some v \<Rightarrow> c \<in> set (classList v))"
| "holds (Element t a cs) (Id i) = (map_of a (str ''id'') = Some i)"
| "holds (Element t a cs) (Attr k v) = (map_of a k = Some v)"
| "holds (TextNode s) c = False"
| "holds (Comment s) c = False"

definition matches :: "cond list \<Rightarrow> node \<Rightarrow> bool" where
  "matches sel n = (isElement n \<and> list_all (holds n) sel)"

text \<open>
  A selector is a chain of compound selectors joined by the descendant combinator
  (\<open>table tbody tr\<close>). \<open>select chain par ns\<close> walks the forest \<open>ns\<close>, whose parent is
  \<open>par\<close>, in document order and returns every element that matches the last compound
  selector under ancestors in the forest that match the earlier ones, each element once.
  With an element it returns its parent and the siblings that follow it. A search below
  an element (\<open>find\<close>) looks at the descendants of that element only, for every part of
  the chain.
\<close>

type_synonym hit = "node option \<times> node \<times> node list"

fun select :: "cond list list \<Rightarrow> node option \<Rightarrow> node list \<Rightarrow> hit list" where
  "select chain par [] = []"
| "select chain par (TextNode s # ns) = select chain par ns"
| "select chain par (Comment s # ns) = select chain par ns"
| "select chain par (Element t a cs # ns) =
     (case chain of
        [] \<Rightarrow> []
      | [sel] \<Rightarrow>
          (if matches sel (Element t a cs) then [(par, Element t a cs, ns)] else [])
          @ select [sel] (Some (Element t a cs)) cs
      | sel # rest \<Rightarrow>
          select (if matches sel (Element t a cs) then rest else sel # rest)
            (Some (Element t a cs)) cs)
     @ select chain par ns"

definition elem :: "hit \<Rightarrow> node" where
  "elem h = fst (snd h)"

text \<open>\<open>$(selector)\<close> on the whole document and \<open>$x.find(selector)\<close> below one element.\<close>

definition query :: "cond list list \<Rightarrow> node list \<Rightarrow> hit list" where
  "query chain doc = select chain None doc"

definition find :: "cond list list \<Rightarrow> node \<Rightarrow> hit list" where
  "find chain n = select chain (Some n) (children n)"

text \<open>\<open>.first()\<close> of a selection.\<close>

definition first :: "'a list \<Rightarrow> 'a option" where
  "first xs = (case xs of [] \<Rightarrow> None | x # _ \<Rightarrow> Some x)"

text \<open>\<open>.parent()\<close> of a selection of at most one element.\<close>

definition parent :: "hit option \<Rightarrow> node list" where
  "parent h = (case h of Some (Some p, _, _) \<Rightarrow> [p] | _ \<Rightarrow> [])"




subsection \<open>parseInt\<close>

text \<open>
  A JavaScript number that \<open>parseInt\<close> returns is \<open>NaN\<close>, an infinity, or an integer that
  a double holds. \<open>roundDouble n\<close> is the double nearest to the natural number \<open>n\<close>, ties
  to the even mantissa: \<open>n\<close> itself below \<open>2 ^ 53\<close>, otherwise \<open>n\<close> rounded to 53 significant
  bits, and \<open>None\<close> (infinity) when that is \<open>2 ^ 1024\<close> or more. This is the value that
  the engine of the extension host gives for the digits of a decimal or hexadecimal
  numeral.
\<close>

datatype number = NaN | Num int | Infinity | MinusInfinity

function bitLength :: "nat \<Rightarrow> nat" where
  "bitLength n = (if n = 0 then 0 else Suc (bitLength (n div 2)))"
  by pat_completeness auto
termination
  by (relation "measure id") auto

definition roundDouble :: "nat \<Rightarrow> nat option" where
  "roundDouble n =
     (if n < 2 ^ 53 then Some n
      else (let e = bitLength n - 53;
                q = n div 2 ^ e;
                r = n mod 2 ^ e;
                half = 2 ^ (e - 1);
                q' = (if r > half \<or> (r = half \<and> odd q) then q + 1 else q);
                v = q' * 2 ^ e
            in if v \<ge> 2 ^ 1024 then None else Some v))"

text \<open>The number for a sign and a magnitude.\<close>

definition toNumber :: "bool \<Rightarrow> nat \<Rightarrow> number" where
  "toNumber neg n =
     (case roundDouble n of
        None \<Rightarrow> if neg then MinusInfinity else Infinity
      | Some v \<Rightarrow> Num (if neg then - int v else int v))"

text \<open>
  \<open>parseInt(s)\<close> skips leading white space, reads a sign, reads \<open>0x\<close> or \<open>0X\<close> as the mark
  of radix 16, and takes the longest run of digits of the radix; without a digit the
  result is \<open>NaN\<close>.
\<close>

definition isDigit :: "nat \<Rightarrow> bool" where
  "isDigit c = (c \<in> set (str ''0123456789''))"

definition digitValue :: "nat \<Rightarrow> nat option" where
  "digitValue c =
     map_of (zip (str ''0123456789abcdefABCDEF'')
               [0, 1, 2, 3, 4, 5, 6, 7, 8, 9, 10, 11, 12, 13, 14, 15, 10, 11, 12, 13, 14, 15]) c"

definition isDigitOf :: "nat \<Rightarrow> nat \<Rightarrow> bool" where
  "isDigitOf radix c = (case digitValue c of None \<Rightarrow> False | Some d \<Rightarrow> d < radix)"

definition digitsValue :: "nat \<Rightarrow> jsstring \<Rightarrow> nat" where
  "digitsValue radix ds =
     foldl (\<lambda>acc c. acc * radix + (case digitValue c of None \<Rightarrow> 0 | Some d \<Rightarrow> d)) 0 ds"

definition parseInt :: "jsstring \<Rightarrow> number" where
  "parseInt s =
     (let s1 = trimStart s;
          (neg, s2) = (case s1 of
                         [] \<Rightarrow> (False, s1)
                       | c # r \<Rightarrow> if c = chr CHR ''-'' then (True, r)
                                  else if c = chr CHR ''+'' then (False, r) else (False, s1));
          (radix, s3) = (if startsWith s2 (str ''0x'') \<or> startsWith s2 (str ''0X'')
                         then (16, drop 2 s2) else (10, s2));
          z = takeWhile (isDigitOf radix) s3
      in if z = [] then NaN else toNumber neg (digitsValue radix z))"

subsection \<open>parsePracticeList\<close>

datatype kind = practice | contest

record Practice =
  pr_id :: jsstring
  pr_name :: jsstring
  pr_groupSubdomain :: jsstring
  problemCount :: number
  pr_url :: jsstring
  pr_type :: kind

text \<open>
  \<open>href.match(/\/([^/]+)\/$/)\<close>: the string ends with \<open>/\<close>, a non-empty segment without
  \<open>/\<close>, and \<open>/\<close>; the result is the segment.
\<close>

definition matchId :: "jsstring \<Rightarrow> jsstring option" where
  "matchId href =
     (case rev href of
        [] \<Rightarrow> None
      | c # r \<Rightarrow>
          if c \<noteq> (chr CHR ''/'') then None
          else (let seg = takeWhile (\<lambda>x. x \<noteq> (chr CHR ''/'')) r;
                    front = dropWhile (\<lambda>x. x \<noteq> (chr CHR ''/'')) r
                in if seg \<noteq> [] \<and> front \<noteq> [] then Some (rev seg) else None))"

text \<open>
  The localized word for "problems" that closes the count (the code unit U+9898),
  followed by the closing parenthesis.
\<close>

definition countSuffix :: jsstring where
  "countSuffix = [0x9898] @ str '')''"

text \<open>
  \<open>text.match(/\((\d+)<word>\)/)\<close>: the leftmost opening parenthesis that is followed by
  one or more digits, the word and a closing parenthesis; the result is the digits.
\<close>

fun countMatch :: "jsstring \<Rightarrow> jsstring option" where
  "countMatch [] = None"
| "countMatch (c # cs) =
     (if c = (chr CHR ''('') \<and> takeWhile isDigit cs \<noteq> [] \<and> startsWith (dropWhile isDigit cs) countSuffix
      then Some (takeWhile isDigit cs)
      else countMatch cs)"

text \<open>
  The body of the two loops of \<open>parsePracticeList\<close>, for one \<open>li\<close> element: the record
  to push, or \<open>None\<close> when the \<open>href\<close> of the title link does not match.
\<close>

text \<open>\<open>link.parent().text()\<close>, the text in which the count is looked for.\<close>

definition countText :: "node \<Rightarrow> jsstring" where
  "countText element = text_of (parent (first (find [[Tag (str ''h3'')], [Tag (str ''a'')]] element)))"

definition practiceOf :: "jsstring \<Rightarrow> kind \<Rightarrow> node \<Rightarrow> Practice option" where
  "practiceOf subdomain k element =
     (let link = first (find [[Tag (str ''h3'')], [Tag (str ''a'')]] element);
          href = (case link of None \<Rightarrow> None | Some l \<Rightarrow> attr (str ''href'') (elem l));
          nm = trim (text_of (map elem (case link of None \<Rightarrow> [] | Some l \<Rightarrow> [l])));
          m = (case href of None \<Rightarrow> None | Some h \<Rightarrow> matchId h)
      in case m of
           None \<Rightarrow> None
         | Some practiceId \<Rightarrow>
             (let problemCountText = countText element;
                  countM = countMatch problemCountText;
                  cnt = (case countM of None \<Rightarrow> Num 0 | Some ds \<Rightarrow> parseInt ds)
              in Some \<lparr>pr_id = practiceId, pr_name = nm, pr_groupSubdomain = subdomain,
                        problemCount = cnt,
                        pr_url = (str ''http://'') @ subdomain @ (str ''.openjudge.cn/'') @ practiceId @ (str ''/''),
                        pr_type = k\<rparr>))"

definition pushPractice :: "jsstring \<Rightarrow> kind \<Rightarrow> hit \<Rightarrow> Practice list \<Rightarrow> Practice list" where
  "pushPractice subdomain k h practices =
     (case practiceOf subdomain k (elem h) of None \<Rightarrow> practices | Some p \<Rightarrow> practices @ [p])"

definition parsePracticeList :: "node list \<Rightarrow> jsstring \<Rightarrow> Practice list" where
  "parsePracticeList doc subdomain =
     (let practices0 = [];
          practices1 = fold (pushPractice subdomain practice)
                         (query [[Tag (str ''li''), Class (str ''practice-info'')]] doc) practices0;
          practices2 = fold (pushPractice subdomain contest)
                         (query [[Tag (str ''li''), Class (str ''contest-info'')]] doc) practices1
      in practices2)"

subsection \<open>parseProblemList\<close>

record Problem =
  pb_id :: jsstring
  pb_title :: jsstring
  practiceId :: jsstring
  pb_groupSubdomain :: jsstring
  acceptanceRate :: "jsstring option"
  passedCount :: "number option"
  attemptCount :: "number option"
  pb_url :: jsstring
  contestId :: "jsstring option"

text \<open>\<open>$('input[name="contestId"]').val()\<close>: the \<open>value\<close> attribute of the first such input.\<close>

definition contestIdOf :: "node list \<Rightarrow> jsstring option" where
  "contestIdOf doc =
     (case first (query [[Tag (str ''input''), Attr (str ''name'') (str ''contestId'')]] doc) of
        None \<Rightarrow> None
      | Some h \<Rightarrow> attr (str ''value'') (elem h))"

definition extractContestId :: "node list \<Rightarrow> jsstring option" where
  "extractContestId doc = contestIdOf doc"

definition problemUrl :: "jsstring \<Rightarrow> jsstring \<Rightarrow> jsstring \<Rightarrow> jsstring" where
  "problemUrl subdomain pid problemId =
     (str ''http://'') @ subdomain @ (str ''.openjudge.cn/'') @ pid @ (str ''/'') @ problemId @ (str ''/'')"

text \<open>
  The test of the first loop: the row has a \<open>td.problem-id\<close> cell and a \<open>td.title\<close> cell.
\<close>

definition isPrimaryRow :: "node \<Rightarrow> bool" where
  "isPrimaryRow row =
     (find [[Tag (str ''td''), Class (str ''problem-id'')]] row \<noteq> [] \<and> find [[Tag (str ''td''), Class (str ''title'')]] row \<noteq> [])"

text \<open>What the first loop pushes for a row that passes the test, if anything.\<close>

definition primaryProblem :: "jsstring \<Rightarrow> jsstring \<Rightarrow> jsstring option \<Rightarrow> node \<Rightarrow> Problem option" where
  "primaryProblem pid subdomain cid row =
     (let problemId = trim (text_of (map elem (find [[Tag (str ''td''), Class (str ''problem-id'')], [Tag (str ''a'')]] row)));
          problemTitle = trim (text_of (map elem (find [[Tag (str ''td''), Class (str ''title'')], [Tag (str ''a'')]] row)));
          attempt = (if find [[Tag (str ''td''), Class (str ''submissions'')]] row \<noteq> []
                     then Some (parseInt (trim (text_of (map elem
                                  (find [[Tag (str ''td''), Class (str ''submissions'')], [Tag (str ''a'')]] row)))))
                     else None)
      in if problemId \<noteq> [] \<and> problemTitle \<noteq> []
         then Some \<lparr>pb_id = problemId, pb_title = problemTitle, practiceId = pid,
                    pb_groupSubdomain = subdomain, acceptanceRate = None, passedCount = None,
                    attemptCount = attempt, pb_url = problemUrl subdomain pid problemId,
                    contestId = cid\<rparr>
         else None)"

text \<open>The body of the first loop; the state is \<open>(foundProblems, problems)\<close>.\<close>

definition primaryStep ::
  "jsstring \<Rightarrow> jsstring \<Rightarrow> jsstring option \<Rightarrow> hit \<Rightarrow> bool \<times> Problem list \<Rightarrow> bool \<times> Problem list" where
  "primaryStep pid subdomain cid h st =
     (if isPrimaryRow (elem h)
      then (True, case primaryProblem pid subdomain cid (elem h) of
                    None \<Rightarrow> snd st
                  | Some p \<Rightarrow> snd st @ [p])
      else st)"

text \<open>The anchor text of the cell at one position of a row.\<close>

definition cellText :: "hit list \<Rightarrow> nat \<Rightarrow> jsstring" where
  "cellText cells i = trim (text_of (map elem (find [[Tag (str ''a'')]] (elem (cells ! i)))))"

text \<open>What the second loop pushes for a row, if anything.\<close>

definition genericProblem :: "jsstring \<Rightarrow> jsstring \<Rightarrow> jsstring option \<Rightarrow> node \<Rightarrow> Problem option" where
  "genericProblem pid subdomain cid row =
     (let cells = find [[Tag (str ''td'')]] row
      in if length cells \<ge> 2
         then (let problemId = cellText cells 0;
                   problemTitle = cellText cells 1;
                   rate = (if length cells > 2 then Some (cellText cells 2) else None);
                   passed = (if length cells > 3 then Some (parseInt (cellText cells 3)) else None);
                   attempt = (if length cells > 4 then Some (parseInt (cellText cells 4)) else None)
               in if problemId \<noteq> [] \<and> problemTitle \<noteq> []
                  then Some \<lparr>pb_id = problemId, pb_title = problemTitle, practiceId = pid,
                             pb_groupSubdomain = subdomain, acceptanceRate = rate,
                             passedCount = passed, attemptCount = attempt,
                             pb_url = problemUrl subdomain pid problemId, contestId = cid\<rparr>
                  else None)
         else None)"

definition genericStep :: "jsstring \<Rightarrow> jsstring \<Rightarrow> jsstring option \<Rightarrow> hit \<Rightarrow> Problem list \<Rightarrow> Problem list" where
  "genericStep pid subdomain cid h problems =
     (case genericProblem pid subdomain cid (elem h) of
        None \<Rightarrow> problems
      | Some p \<Rightarrow> problems @ [p])"

definition tableRows :: "node list \<Rightarrow> hit list" where
  "tableRows doc = query [[Tag (str ''table'')], [Tag (str ''tbody'')], [Tag (str ''tr'')]] doc"

definition parseProblemList :: "node list \<Rightarrow> jsstring \<Rightarrow> jsstring \<Rightarrow> Problem list" where
  "parseProblemList doc pid subdomain =
     (let cid = contestIdOf doc;
          (foundProblems, problems) = fold (primaryStep pid subdomain cid) (tableRows doc) (False, [])
      in if \<not> foundProblems
         then fold (genericStep pid subdomain cid) (tableRows doc) problems
         else problems)"

subsection \<open>parseProblemDetail\<close>

























section \<open>Definitions for the statements\<close>

subsection \<open>The session condition in the words of the specification\<close>

text \<open>
  The cookie string is cut at every \<open>;\<close>, and each piece is cut at its first \<open>=\<close> only
  into a name and a value, both without surrounding white space.
\<close>

definition spec_pairs :: "jsstring \<Rightarrow> (jsstring \<times> jsstring) list" where
  "spec_pairs s =
     map (\<lambda>c. (trim (takeWhile (\<lambda>x. x \<noteq> (chr CHR ''='')) c),
                trim (drop 1 (dropWhile (\<lambda>x. x \<noteq> (chr CHR ''='')) c))))
       (map trim (split (chr CHR '';'') s))"

text \<open>The string contains a pair named \<open>PHPSESSID\<close> with a non-empty value.\<close>

definition spec_containsSessionId :: "jsstring \<Rightarrow> bool" where
  "spec_containsSessionId s = list_ex (\<lambda>(n, v). n = (str ''PHPSESSID'') \<and> v \<noteq> []) (spec_pairs s)"

text \<open>The value of the last pair with a given name, if there is such a pair.\<close>

definition spec_lastValue :: "jsstring \<Rightarrow> jsstring \<Rightarrow> jsstring option" where
  "spec_lastValue nm s =
     (case filter (\<lambda>(n, v). n = nm) (spec_pairs s) of
        [] \<Rightarrow> None
      | p # ps \<Rightarrow> Some (snd (last (p # ps))))"

text \<open>The name and the value that the loop of \<open>loginWithCookie\<close> reads from one cookie.\<close>

definition nameOf :: "jsstring \<Rightarrow> jsstring" where
  "nameOf c = trim (fst (parseCookiePair c))"

definition valueOf :: "jsstring \<Rightarrow> jsstring" where
  "valueOf c = trim (snd (parseCookiePair c))"

subsection \<open>Client and poll states\<close>

text \<open>The client right after construction when nothing was saved.\<close>

definition newClient :: client where
  "newClient = \<lparr>session = None, cookieJar = [],
                store = \<lparr>gs_session = None, gs_cookieJar = None, gs_credentials = None\<rparr>\<rparr>"

text \<open>A submission whose status page shows \<open>Accepted\<close> at every request.\<close>

definition acceptedPages :: "nat \<Rightarrow> page" where
  "acceptedPages n = Status (str ''Accepted'')"

text \<open>A page is pending when its status is not final, and final when it is.\<close>

definition pending :: "page \<Rightarrow> bool" where
  "pending pg = (case pg of Status st \<Rightarrow> st \<notin> set finalStatuses | FetchFailed \<Rightarrow> False)"

definition final :: "page \<Rightarrow> bool" where
  "final pg = (case pg of Status st \<Rightarrow> st \<in> set finalStatuses | FetchFailed \<Rightarrow> False)"

subsection \<open>Document order and the dual-key lookup, in the words of the specification\<close>

text \<open>The elements of a forest in document order: each element before its descendants.\<close>

fun elements :: "node list \<Rightarrow> node list" where
  "elements [] = []"
| "elements (TextNode s # ns) = elements ns"
| "elements (Comment s # ns) = elements ns"
| "elements (Element t a cs # ns) = Element t a cs # elements cs @ elements ns"



subsection \<open>The practice list in the words of the specification\<close>

text \<open>
  The records of the practice items and of the contest items, concatenated in document
  order: the elements of the document are visited in document order, and an element of
  the practice family gives its practice record, an element of the contest family its
  contest record.
\<close>

definition spec_recordsOf :: "jsstring \<Rightarrow> node \<Rightarrow> Practice list" where
  "spec_recordsOf sub e =
     (if matches [Tag (str ''li''), Class (str ''practice-info'')] e
      then (case practiceOf sub practice e of None \<Rightarrow> [] | Some p \<Rightarrow> [p]) else [])
     @ (if matches [Tag (str ''li''), Class (str ''contest-info'')] e
        then (case practiceOf sub contest e of None \<Rightarrow> [] | Some p \<Rightarrow> [p]) else [])"

definition spec_practiceList :: "node list \<Rightarrow> jsstring \<Rightarrow> Practice list" where
  "spec_practiceList doc sub = concat (map (spec_recordsOf sub) (elements doc))"

subsection \<open>Example documents\<close>

text \<open>A group page with a contest item (seven problems) before a practice item.\<close>

definition contestItem :: node where
  "contestItem =
     Element (str ''li'') [((str ''class''), (str ''contest-info''))]
       [Element (str ''h3'') []
          [Element (str ''a'') [((str ''href''), (str ''/c1/''))] [TextNode (str '' Contest '')],
           TextNode ((str ''(7'') @ countSuffix)]]"

definition practiceItem :: node where
  "practiceItem =
     Element (str ''li'') [((str ''class''), (str ''item practice-info''))]
       [Element (str ''h3'') [] [Element (str ''a'') [((str ''href''), (str ''/p1/''))] [TextNode (str ''P1'')]]]"

definition groupPage :: "node list" where
  "groupPage = [Element (str ''ul'') [] [contestItem, TextNode (str '' ''), practiceItem]]"

text \<open>
  A practice item whose class attribute separates the class names with a no-break space
  and whose count has seventeen digits.
\<close>

definition longCountItem :: node where
  "longCountItem =
     Element (str ''li'') [((str ''class''), (str ''item'') @ [0xA0] @ (str ''practice-info''))]
       [Element (str ''h3'') []
          [Element (str ''a'') [((str ''href''), (str ''/big/''))] [TextNode (str ''Big'')],
           TextNode ((str ''(9007199254740993'') @ countSuffix)]]"

text \<open>
  A problem page in the generic layout: three rows of plain \<open>td\<close> cells with an anchor in
  each of the first two cells. In the second page the title anchor of the second row has
  no text.
\<close>

definition anchorCell :: "jsstring \<Rightarrow> node" where
  "anchorCell t = Element (str ''td'') [] [Element (str ''a'') [((str ''href''), (str ''#''))] [TextNode t]]"

definition tablePage :: "node list \<Rightarrow> node list" where
  "tablePage rows =
     [Element (str ''html'') [] [Element (str ''body'') [] [Element (str ''table'') [] [Element (str ''tbody'') [] rows]]]]"

definition genericRows :: "node list" where
  "genericRows =
     [Element (str ''tr'') [] [anchorCell (str ''01''), anchorCell (str '' A+B ''), anchorCell (str ''50%''), anchorCell (str ''10''), anchorCell (str ''20'')],
      Element (str ''tr'') [] [anchorCell (str ''02''), anchorCell (str ''Sum'')],
      Element (str ''tr'') [] [anchorCell (str ''03''), anchorCell (str ''Max''), anchorCell (str ''25%'')]]"

definition blankTitleRows :: "node list" where
  "blankTitleRows =
     [Element (str ''tr'') [] [anchorCell (str ''01''), anchorCell (str ''A+B'')],
      Element (str ''tr'') [] [anchorCell (str ''02''), anchorCell []],
      Element (str ''tr'') [] [anchorCell (str ''03''), anchorCell (str ''Max'')]]"

text \<open>The same page with a no-break space (\<open>&nbsp;\<close>) as the text of that title anchor.\<close>

definition nbspTitleRows :: "node list" where
  "nbspTitleRows =
     [Element (str ''tr'') [] [anchorCell (str ''01''), anchorCell (str ''A+B'')],
      Element (str ''tr'') [] [anchorCell (str ''02''), anchorCell [0xA0]],
      Element (str ''tr'') [] [anchorCell (str ''03''), anchorCell (str ''Max'')]]"

text \<open>The row has an anchor in each of its first two cells.\<close>

definition hasTwoAnchors :: "node \<Rightarrow> bool" where
  "hasTwoAnchors row =
     (let cells = find [[Tag (str ''td'')]] row
      in length cells \<ge> 2
         \<and> find [[Tag (str ''a'')]] (elem (cells ! 0)) \<noteq> []
         \<and> find [[Tag (str ''a'')]] (elem (cells ! 1)) \<noteq> [])"

text \<open>A problem page with one row of the primary layout and one generic row.\<close>

definition classCell :: "jsstring \<Rightarrow> jsstring \<Rightarrow> node" where
  "classCell c t = Element (str ''td'') [((str ''class''), c)] [Element (str ''a'') [((str ''href''), (str ''#''))] [TextNode t]]"

definition primaryRows :: "node list" where
  "primaryRows =
     [Element (str ''tr'') [] [classCell (str ''problem-id'') (str ''B01''), classCell (str ''title'') (str ''Hello''),
                         classCell (str ''submissions'') (str ''42'')],
      Element (str ''tr'') [] [anchorCell (str ''02''), anchorCell (str ''Sum'')]]"








section \<open>Facts about the string functions\<close>

lemma splitOn_Nil: "splitOn c [] = ([], [])"
  by (simp add: splitOn_def)

lemma splitOn_Cons:
  "splitOn c (x # xs) =
     (if x = c then ([], fst (splitOn c xs) # snd (splitOn c xs))
      else (x # fst (splitOn c xs), snd (splitOn c xs)))"
  by (simp add: splitOn_def case_prod_beta)

lemma splitOn_notin: "c \<notin> set s \<Longrightarrow> splitOn c s = (s, [])"
  by (induction s) (auto simp: splitOn_Nil splitOn_Cons)

lemma splitOn_append:
  "c \<notin> set a \<Longrightarrow> splitOn c (a @ c # b) = (a, fst (splitOn c b) # snd (splitOn c b))"
  by (induction a) (auto simp: splitOn_Cons)

lemma fst_splitOn: "fst (splitOn c s) = takeWhile (\<lambda>x. x \<noteq> c) s"
  by (induction s) (simp_all add: splitOn_Nil splitOn_Cons)

lemma join_Cons_head: "join sep ((x # h) # t) = x # join sep (h # t)"
  by (cases t) simp_all

lemma join_split: "join [c] (fst (splitOn c s) # snd (splitOn c s)) = s"
  by (induction s) (simp_all add: splitOn_Nil splitOn_Cons join_Cons_head)

lemma join_snd_splitOn:
  "join [c] (snd (splitOn c s)) = drop 1 (dropWhile (\<lambda>x. x \<noteq> c) s)"
  by (induction s) (simp_all add: splitOn_Nil splitOn_Cons join_split)



section \<open>Facts about the cookie jar\<close>

lemma Map_set_keys_in: "k \<in> fst ` set m \<Longrightarrow> map fst (Map_set k v m) = map fst m"
proof (induction m)
  case Nil
  then show ?case by simp
next
  case (Cons p m)
  then show ?case by (cases p) force
qed

lemma Map_set_fresh: "k \<notin> fst ` set m \<Longrightarrow> Map_set k v m = m @ [(k, v)]"
  by (induction m) auto

lemma map_of_Map_set: "map_of (Map_set k v m) = (map_of m)(k \<mapsto> v)"
  by (induction m) (auto simp: fun_eq_iff)

lemma wf_Map_set: "wf_jar j \<Longrightarrow> wf_jar (Map_set k v j)"
  by (cases "k \<in> fst ` set j") (simp_all add: wf_jar_def Map_set_keys_in Map_set_fresh)

lemma wf_fold_Map_set: "wf_jar j \<Longrightarrow> wf_jar (fold (\<lambda>h. Map_set (f h) (g h)) hs j)"
  by (induction hs arbitrary: j) (simp_all add: wf_Map_set)

lemma wf_setCookie: "wf_jar j \<Longrightarrow> wf_jar (setCookie h d j)"
  by (simp add: setCookie_def wf_fold_Map_set)

lemma wf_jar_set: "wf_jar j \<Longrightarrow> wf_jar (jar_set n v d p j)"
  by (simp add: jar_set_def wf_Map_set)

lemma wf_jar_clear: "wf_jar (jar_clear j)"
  by (simp add: jar_clear_def wf_jar_def)

lemma wf_Map_new_acc: "wf_jar acc \<Longrightarrow> wf_jar (fold (\<lambda>(k, v) m. Map_set k v m) xs acc)"
  by (induction xs arbitrary: acc) (auto simp: wf_Map_set)

lemma wf_jar_import: "wf_jar (jar_import data)"
proof -
  have "wf_jar []" by (simp add: wf_jar_def)
  then show ?thesis unfolding jar_import_def Map_new_def by (rule wf_Map_new_acc)
qed

lemma fold_Map_set_fresh:
  "distinct (map fst xs) \<Longrightarrow> fst ` set xs \<inter> fst ` set acc = {} \<Longrightarrow>
   fold (\<lambda>(k, v) m. Map_set k v m) xs acc = acc @ xs"
proof (induction xs arbitrary: acc)
  case Nil
  then show ?case by simp
next
  case (Cons x xs)
  obtain k v where x: "x = (k, v)" by (cases x)
  from Cons.prems have fresh: "k \<notin> fst ` set acc" by (auto simp: x)
  have "fst ` set xs \<inter> fst ` set (acc @ [(k, v)]) = {}"
    using Cons.prems by (auto simp: x)
  with Cons show ?case by (simp add: x Map_set_fresh [OF fresh])
qed

lemma import_export: "wf_jar j \<Longrightarrow> jar_import (jar_export j) = j"
  by (simp add: jar_import_def jar_export_def Map_new_def wf_jar_def fold_Map_set_fresh)

text \<open>
  C1. For every state of the cookie jar, the jar obtained by importing what \<open>export()\<close>
  returns gives the same \<open>getCookieHeader(domain)\<close> string as the original jar, for every
  domain. A state of the jar is a \<open>Map\<close>, in which no cookie name occurs twice
  (\<open>wf_jar\<close>); every operation of the jar keeps it so.
\<close>

theorem export_import_roundtrip:
  "wf_jar j \<Longrightarrow> getCookieHeader d (jar_import (jar_export j)) = getCookieHeader d j"
  by (simp add: import_export)

theorem export_import_roundtrip_witness:
  "wf_jar (setCookie (Multi [(str ''SID=abc; Path=/; Domain=example.com''), (str ''lang=en'')]) (str ''openjudge.cn'') [])
   \<and> getCookieHeader (str ''www.example.com'')
         (jar_import (jar_export
            (setCookie (Multi [(str ''SID=abc; Path=/; Domain=example.com''), (str ''lang=en'')]) (str ''openjudge.cn'') [])))
       = (str ''SID=abc'')"
proof -
  let ?j = "setCookie (Multi [(str ''SID=abc; Path=/; Domain=example.com''), (str ''lang=en'')]) (str ''openjudge.cn'') []"
  have wf: "wf_jar ?j" by code_simp
  have "getCookieHeader (str ''www.example.com'') ?j = (str ''SID=abc'')" by code_simp
  with export_import_roundtrip [OF wf, of "(str ''www.example.com'')"] wf show ?thesis by simp
qed






lemma setCookie_Single:
  "setCookie (Single h) d j = Map_set (fst (parseSetCookie h d)) (snd (parseSetCookie h d)) j"
  by (simp add: setCookie_def)




lemma splitOn_twice:
  assumes "c \<notin> set n" and "c \<notin> set a"
  shows "splitOn c (n @ c # a @ c # b) = (n, a # fst (splitOn c b) # snd (splitOn c b))"
  using assms by (simp add: splitOn_append)

lemma parseSetCookie_truncates:
  assumes "(chr CHR ''='') \<notin> set n" and "(chr CHR ''='') \<notin> set a"
    and "trim (fst (splitOn (chr CHR '';'') header)) = n @ (str ''='') @ a @ (str ''='') @ b"
  shows "fst (parseSetCookie header d) = n \<and> value (snd (parseSetCookie header d)) = Some a"
  using assms splitOn_twice [of "(chr CHR ''='')" n a b]
  by (simp add: parseSetCookie_def case_prod_beta Let_def)

lemma parseCookiePair_first:
  "parseCookiePair c = (takeWhile (\<lambda>x. x \<noteq> (chr CHR ''='')) c, drop 1 (dropWhile (\<lambda>x. x \<noteq> (chr CHR ''='')) c))"
  using join_snd_splitOn [of "(chr CHR ''='')" c]
  by (simp add: parseCookiePair_def case_prod_beta fst_splitOn)

lemma parseCookiePair_joins:
  assumes "(chr CHR ''='') \<notin> set n"
  shows "parseCookiePair (n @ (chr CHR ''='') # rest) = (n, rest)"
  using assms by (simp add: parseCookiePair_first takeWhile_append dropWhile_append)

text \<open>
  C10. In \<open>setCookie\<close>, when the \<open>name=value\<close> segment of a \<open>Set-Cookie\<close> value has a
  second \<open>=\<close>, the stored value is only the text between the first and the second \<open>=\<close>:
  from \<open>"SID=a=b; Path=/"\<close> the stored value is \<open>a\<close>. The manual cookie-string path
  keeps everything after the first \<open>=\<close>: the pair \<open>n=a=b\<close> has the value \<open>a=b\<close>, and the
  cookie string \<open>"PHPSESSID=a=b"\<close> gives the session id \<open>a=b\<close>.
\<close>

theorem setCookie_value_truncated:
  "((chr CHR ''='') \<notin> set n \<and> (chr CHR ''='') \<notin> set a
      \<and> trim (fst (splitOn (chr CHR '';'') header)) = n @ (str ''='') @ a @ (str ''='') @ b
     \<longrightarrow> fst (parseSetCookie header d) = n \<and> value (snd (parseSetCookie header d)) = Some a)
   \<and> ((chr CHR ''='') \<notin> set n \<longrightarrow> parseCookiePair (n @ (str ''='') @ a @ (str ''='') @ b) = (n, a @ (str ''='') @ b))
   \<and> jar_get (str ''SID'') (setCookie (Single (str ''SID=a=b; Path=/'')) d j) = Some (str ''a'')
   \<and> fst (parseCookieString (str ''PHPSESSID=a=b'')) = (str ''a=b'')"
proof -
  have ex: "parseSetCookie (str ''SID=a=b; Path=/'') d = ((str ''SID''), \<lparr>value = Some (str ''a''), domain = d, path = (str ''/'')\<rparr>)"
    by (simp add: parseSetCookie_def splitOn_def trim_def trimStart_def trimEnd_def isSpace_def
      scanAttr_def startsWith_def substring_def toLowerCase_def lowerChar_def)
  have login: "fst (parseCookieString (str ''PHPSESSID=a=b'')) = (str ''a=b'')"
    by code_simp
  show ?thesis
    using parseSetCookie_truncates [of n a header b d] parseCookiePair_joins [of n "a @ (str ''='') @ b"]
    by (simp add: ex [simplified] login [simplified] jar_get_def setCookie_Single map_of_Map_set)
qed

theorem setCookie_value_truncated_witness:
  "fst (parseSetCookie (str '' token=YWJj=; HttpOnly'') (str ''openjudge.cn'')) = (str ''token'')
   \<and> value (snd (parseSetCookie (str '' token=YWJj=; HttpOnly'') (str ''openjudge.cn''))) = Some (str ''YWJj'')
   \<and> parseCookiePair (str ''token=YWJj='') = ((str ''token''), (str ''YWJj=''))"
proof -
  have h: "(chr CHR ''='') \<notin> set (str ''token'') \<and> (chr CHR ''='') \<notin> set (str ''YWJj'')
           \<and> trim (fst (splitOn (chr CHR '';'') (str '' token=YWJj=; HttpOnly''))) = (str ''token'') @ (str ''='') @ (str ''YWJj'') @ (str ''='') @ []"
    by code_simp
  from setCookie_value_truncated [of "(str ''token'')" "(str ''YWJj'')" "(str '' token=YWJj=; HttpOnly'')" "[]" "(str ''openjudge.cn'')"] h
  show ?thesis by simp
qed

text \<open>
  C9. \<open>clearSession\<close> has no error outcome, and calling it twice leaves the state that
  calling it once leaves: the session is \<open>null\<close>, the cookie jar is empty, and the three
  persisted keys (session, cookie jar, credentials) are cleared.
\<close>

theorem clearSession_idempotent:
  "clearSession (clearSession c) = clearSession c
   \<and> session (clearSession c) = None
   \<and> cookieJar (clearSession c) = []
   \<and> gs_session (store (clearSession c)) = None
   \<and> gs_cookieJar (store (clearSession c)) = None
   \<and> gs_credentials (store (clearSession c)) = None"
  by (simp add: clearSession_def jar_clear_def)

section \<open>Facts about makeRequest\<close>

lemma makeRequest_session: "session (fst (makeRequest host f c)) = session c"
  by (simp add: makeRequest_def Let_def split: fetched.splits sum.splits option.splits)







section \<open>Facts about loginWithCookie\<close>

lemma scanCookie_fst:
  "fst (scanCookie c pl) = (if nameOf c = (str ''PHPSESSID'') then valueOf c else fst pl)"
  by (simp add: scanCookie_def nameOf_def valueOf_def case_prod_beta)

lemma scanCookie_snd:
  "snd (scanCookie c pl) =
     (if nameOf c \<noteq> (str ''PHPSESSID'') \<and> nameOf c = (str ''language'') then valueOf c else snd pl)"
  by (simp add: scanCookie_def nameOf_def valueOf_def case_prod_beta)

lemma fold_scanCookie_fst:
  "fst (fold scanCookie cs init) =
     (case filter (\<lambda>c. nameOf c = (str ''PHPSESSID'')) cs of
        [] \<Rightarrow> fst init
      | p # ps \<Rightarrow> valueOf (last (p # ps)))"
proof (induction cs rule: rev_induct)
  case Nil
  then show ?case by simp
next
  case (snoc c cs)
  then show ?case
    by (cases "filter (\<lambda>c. nameOf c = (str ''PHPSESSID'')) cs") (simp_all add: scanCookie_fst)
qed

lemma fold_scanCookie_snd:
  "snd (fold scanCookie cs init) =
     (case filter (\<lambda>c. nameOf c = (str ''language'')) cs of
        [] \<Rightarrow> snd init
      | p # ps \<Rightarrow> valueOf (last (p # ps)))"
proof (induction cs rule: rev_induct)
  case Nil
  then show ?case by simp
next
  case (snoc c cs)
  then show ?case
    by (cases "filter (\<lambda>c. nameOf c = (str ''language'')) cs") (auto simp: scanCookie_snd)
qed

lemma spec_pairs_eq:
  "spec_pairs s = map (\<lambda>c. (nameOf c, valueOf c)) (map trim (split (chr CHR '';'') s))"
  by (simp add: spec_pairs_def nameOf_def valueOf_def parseCookiePair_first)

lemma filter_pairs:
  "filter (\<lambda>(n, v). n = nm) (map (\<lambda>c. (nameOf c, valueOf c)) cs)
     = map (\<lambda>c. (nameOf c, valueOf c)) (filter (\<lambda>c. nameOf c = nm) cs)"
  by (induction cs) simp_all

lemma spec_lastValue_eq:
  "spec_lastValue nm s =
     (case filter (\<lambda>c. nameOf c = nm) (map trim (split (chr CHR '';'') s)) of
        [] \<Rightarrow> None
      | p # ps \<Rightarrow> Some (valueOf (last (p # ps))))"
proof -
  let ?f = "filter (\<lambda>c. nameOf c = nm) (map trim (split (chr CHR '';'') s))"
  have eq: "filter (\<lambda>(n, v). n = nm) (spec_pairs s) = map (\<lambda>c. (nameOf c, valueOf c)) ?f"
    unfolding spec_pairs_eq by (rule filter_pairs)
  show ?thesis
  proof (cases ?f)
    case Nil
    then show ?thesis unfolding spec_lastValue_def eq by simp
  next
    case (Cons p ps)
    have "last (map (\<lambda>c. (nameOf c, valueOf c)) (p # ps)) = (nameOf (last (p # ps)), valueOf (last (p # ps)))"
      by (rule last_map) simp
    then show ?thesis
      unfolding spec_lastValue_def eq Cons by (simp del: last.simps)
  qed
qed

lemma parseCookieString_fst:
  "fst (parseCookieString s) = (case spec_lastValue (str ''PHPSESSID'') s of None \<Rightarrow> [] | Some v \<Rightarrow> v)"
  by (simp add: parseCookieString_def fold_scanCookie_fst spec_lastValue_eq split: list.splits)

lemma parseCookieString_snd:
  "snd (parseCookieString s) = (case spec_lastValue (str ''language'') s of None \<Rightarrow> (str ''zh_CN'') | Some v \<Rightarrow> v)"
  by (simp add: parseCookieString_def fold_scanCookie_snd spec_lastValue_eq split: list.splits)

lemma loginWithCookie_fail:
  assumes "fst (parseCookieString s) = []"
  shows "loginWithCookie True (Some s) cfg verify c =
           (c, \<lparr>result = ERROR,
                message = (if s = [] then NoCookieEntered else PhpsessidNotFound), hint = None\<rparr>)"
  using assms by (simp add: loginWithCookie_def case_prod_beta)

lemma parseCookieString_empty: "fst (parseCookieString []) = []"
  by code_simp

lemma loginWithCookie_ok:
  assumes "fst (parseCookieString s) \<noteq> []"
  shows "result (snd (loginWithCookie True (Some s) cfg verify c)) = SUCCESS
    \<and> session (fst (loginWithCookie True (Some s) cfg verify c))
        = Some \<lparr>PHPSESSID = fst (parseCookieString s),
                 language = (case cfg of None \<Rightarrow> snd (parseCookieString s)
                             | Some l \<Rightarrow> if l \<noteq> [] then l else snd (parseCookieString s))\<rparr>"
proof -
  from assms have ne: "s \<noteq> []" using parseCookieString_empty by auto
  show ?thesis
    using assms ne
    by (simp add: loginWithCookie_def case_prod_beta Let_def makeRequest_session
        split: sum.splits)
qed

text \<open>
  C5 as stated fails: the cookie string \<open>"PHPSESSID=abc; PHPSESSID="\<close> contains a pair
  named \<open>PHPSESSID\<close> with a non-empty value, but the loop keeps the value of the last
  such pair, which is empty, and the login fails. And with the interface language
  configured as \<open>zh_CN\<close>, the input \<open>"PHPSESSID=xyz789; language=en_US"\<close> gives the locale
  \<open>zh_CN\<close>.
\<close>

theorem loginWithCookie_first_pair_counterexample:
  "spec_containsSessionId (str ''PHPSESSID=abc; PHPSESSID='')
   \<and> loginWithCookie True (Some (str ''PHPSESSID=abc; PHPSESSID='')) None (NetworkError []) newClient
       = (newClient, \<lparr>result = ERROR, message = PhpsessidNotFound, hint = None\<rparr>)
   \<and> session (fst (loginWithCookie True (Some (str ''PHPSESSID=xyz789; language=en_US'')) (Some (str ''zh_CN''))
                       (NetworkError []) newClient))
       = Some \<lparr>PHPSESSID = (str ''xyz789''), language = (str ''zh_CN'')\<rparr>"
  by code_simp

text \<open>
  C5, amended. For every cookie string given to \<open>loginWithCookie\<close>, a session is
  established if and only if the last \<open>;\<close>-separated pair named \<open>PHPSESSID\<close> has a
  non-empty value, each pair being split at its first \<open>=\<close> only and its name and its
  value being read without the white space around them, as \<open>trim\<close> removes it (a value
  that is a no-break space only is empty). The session id then is
  that value, and the locale is the configured interface language when one is
  configured, otherwise the value of the last pair named \<open>language\<close>, and \<open>zh_CN\<close> when
  there is none. When there is no such pair or its value is empty, the result is an
  error and the client state is unchanged. With no interface language configured, the
  input \<open>"PHPSESSID=xyz789; language=en_US"\<close> gives the session id \<open>xyz789\<close> and the
  locale \<open>en_US\<close>.
\<close>

theorem loginWithCookie_session:
  "(result (snd (loginWithCookie True (Some s) cfg verify c)) = SUCCESS
      \<longleftrightarrow> (\<exists>v. spec_lastValue (str ''PHPSESSID'') s = Some v \<and> v \<noteq> []))
   \<and> (spec_lastValue (str ''PHPSESSID'') s = Some v \<and> v \<noteq> [] \<longrightarrow>
        session (fst (loginWithCookie True (Some s) cfg verify c))
          = Some \<lparr>PHPSESSID = v,
                   language =
                     (case cfg of
                        None \<Rightarrow> (case spec_lastValue (str ''language'') s of None \<Rightarrow> (str ''zh_CN'') | Some l \<Rightarrow> l)
                      | Some g \<Rightarrow> if g \<noteq> [] then g
                                  else (case spec_lastValue (str ''language'') s of None \<Rightarrow> (str ''zh_CN'') | Some l \<Rightarrow> l))\<rparr>)
   \<and> (spec_lastValue (str ''PHPSESSID'') s = None \<or> spec_lastValue (str ''PHPSESSID'') s = Some [] \<longrightarrow>
        result (snd (loginWithCookie True (Some s) cfg verify c)) = ERROR
        \<and> fst (loginWithCookie True (Some s) cfg verify c) = c)
   \<and> session (fst (loginWithCookie True (Some (str ''PHPSESSID=xyz789; language=en_US'')) None verify c))
       = Some \<lparr>PHPSESSID = (str ''xyz789''), language = (str ''en_US'')\<rparr>"
proof -
  have ex: "parseCookieString (str ''PHPSESSID=xyz789; language=en_US'') = ((str ''xyz789''), (str ''en_US''))"
    by code_simp
  have last_conj: "session (fst (loginWithCookie True (Some (str ''PHPSESSID=xyz789; language=en_US'')) None verify c))
       = Some \<lparr>PHPSESSID = (str ''xyz789''), language = (str ''en_US'')\<rparr>"
    using loginWithCookie_ok [of "(str ''PHPSESSID=xyz789; language=en_US'')" None verify c]
    by (simp add: ex [simplified])
  show ?thesis
  proof (cases "fst (parseCookieString s) = []")
    case True
    then have "spec_lastValue (str ''PHPSESSID'') s = None \<or> spec_lastValue (str ''PHPSESSID'') s = Some []"
      by (simp add: parseCookieString_fst split: option.splits)
    then show ?thesis
      using loginWithCookie_fail [OF True, of cfg verify c] last_conj by auto
  next
    case False
    then obtain w where w: "spec_lastValue (str ''PHPSESSID'') s = Some w" "w \<noteq> []" "fst (parseCookieString s) = w"
      by (auto simp: parseCookieString_fst split: option.splits)
    show ?thesis
      using loginWithCookie_ok [OF False, of cfg verify c] w last_conj
      by (cases cfg) (auto simp: parseCookieString_snd)
  qed
qed

theorem loginWithCookie_session_witness:
  "session (fst (loginWithCookie True (Some (str ''lang=x; PHPSESSID = a=b ; language=en_US'')) (Some [])
                   (NetworkError []) newClient))
     = Some \<lparr>PHPSESSID = (str ''a=b''), language = (str ''en_US'')\<rparr>
   \<and> result (snd (loginWithCookie True (Some (str ''language=en_US'')) None (NetworkError []) newClient)) = ERROR
   \<and> fst (loginWithCookie True (Some (str ''language=en_US'')) None (NetworkError []) newClient) = newClient
   \<and> result (snd (loginWithCookie True (Some (str ''PHPSESSID='' @ [0xA0] @ str ''; language=en_US'')) None
                     (NetworkError []) newClient)) = ERROR"
proof -
  have h1: "spec_lastValue (str ''PHPSESSID'') (str ''lang=x; PHPSESSID = a=b ; language=en_US'') = Some (str ''a=b'') \<and> (str ''a=b'') \<noteq> []"
    by code_simp
  have l1: "spec_lastValue (str ''language'') (str ''lang=x; PHPSESSID = a=b ; language=en_US'') = Some (str ''en_US'')"
    by code_simp
  have h2: "spec_lastValue (str ''PHPSESSID'') (str ''language=en_US'') = None"
    by code_simp
  have h3: "spec_lastValue (str ''PHPSESSID'') (str ''PHPSESSID='' @ [0xA0] @ str ''; language=en_US'') = Some []"
    by code_simp
  from loginWithCookie_session [of "(str ''lang=x; PHPSESSID = a=b ; language=en_US'')" "Some []"
         "NetworkError []" newClient "(str ''a=b'')"]
       loginWithCookie_session [of "(str ''language=en_US'')" None "NetworkError []" newClient "(str ''a=b'')"]
       loginWithCookie_session [of "str ''PHPSESSID='' @ [0xA0] @ str ''; language=en_US''" None
         "NetworkError []" newClient "(str ''a=b'')"]
       h1 l1 h2 h3
  show ?thesis by simp
qed

section \<open>Facts about the status poll\<close>

lemma ticks_unfold:
  "ticks pages s = (if interval s = Running then ticks pages (updateStatus (pages (requests s)) s) else s)"
  by (rule ticks.simps)

declare ticks.simps [simp del]

lemma ticks_stopped: "interval s \<noteq> Running \<Longrightarrow> ticks pages s = s"
  by (simp add: ticks_unfold)

lemma ticks_step:
  "interval s = Running \<Longrightarrow> ticks pages s = ticks pages (updateStatus (pages (requests s)) s)"
  by (subst ticks_unfold) simp

text \<open>A tick on a page that is not final, below the ceiling.\<close>

lemma updateStatus_pending:
  "st \<notin> set finalStatuses \<Longrightarrow> attempts s < maxAttempts \<Longrightarrow>
   updateStatus (Status st) s = s\<lparr>requests := requests s + 1, attempts := attempts s + 1\<rparr>"
  by (simp add: updateStatus_def Let_def)

lemma updateStatus_final_running:
  "st \<in> set finalStatuses \<Longrightarrow> interval s = Running \<Longrightarrow>
   updateStatus (Status st) s = s\<lparr>requests := requests s + 1, interval := Cleared, attempts := attempts s + 1\<rparr>"
  by (simp add: updateStatus_def Let_def clearIfSet_def)

text \<open>
  While the timer runs with \<open>n\<close> requests made and \<open>n\<close> attempts counted, pending pages up
  to request \<open>k\<close> and a final page at request \<open>k\<close> stop the poll after request \<open>k\<close>.
\<close>

lemma ticks_until_final:
  assumes "interval s = Running" and "requests s = n" and "attempts s = n"
    and "n \<le> k" and "k < maxAttempts"
    and "\<forall>i. n \<le> i \<and> i < k \<longrightarrow> pending (pages i)" and "final (pages k)"
  shows "requests (ticks pages s) = k + 1 \<and> interval (ticks pages s) = Cleared"
  using assms
proof (induction "k - n" arbitrary: n s)
  case 0
  then have nk: "n = k" by simp
  from 0 obtain st where st: "pages k = Status st" "st \<in> set finalStatuses"
    by (auto simp: final_def split: page.splits)
  have "ticks pages s = ticks pages (updateStatus (pages (requests s)) s)"
    using 0 by (simp add: ticks_step)
  also have "\<dots> = updateStatus (Status st) s"
    using 0 st nk by (simp add: updateStatus_final_running ticks_stopped)
  finally show ?case using 0 st nk by (simp add: updateStatus_final_running)
next
  case (Suc d)
  then have lt: "n < k" by simp
  with Suc have "pending (pages n)" by simp
  then obtain st where st: "pages n = Status st" "st \<notin> set finalStatuses"
    by (auto simp: pending_def split: page.splits)
  let ?s' = "updateStatus (pages n) s"
  have s': "?s' = s\<lparr>requests := n + 1, attempts := n + 1\<rparr>"
    using Suc.prems st lt by (simp add: updateStatus_pending)
  have step: "ticks pages s = ticks pages ?s'"
    using Suc.prems by (simp add: ticks_step)
  have "requests (ticks pages ?s') = k + 1 \<and> interval (ticks pages ?s') = Cleared"
  proof (rule Suc.hyps(1) [of "n + 1"])
    show "d = k - (n + 1)" using Suc.hyps(2) by simp
    show "interval ?s' = Running" using Suc.prems by (simp add: s')
    show "requests ?s' = n + 1" by (simp add: s')
    show "attempts ?s' = n + 1" by (simp add: s')
    show "n + 1 \<le> k" using lt by simp
    show "k < maxAttempts" by (rule Suc.prems)
    show "\<forall>i. n + 1 \<le> i \<and> i < k \<longrightarrow> pending (pages i)" using Suc.prems by simp
    show "final (pages k)" by (rule Suc.prems)
  qed
  with step show ?case by simp
qed

lemma updateStatus_ceiling_running:
  "attempts s \<ge> maxAttempts \<Longrightarrow> interval s = Running \<Longrightarrow>
   updateStatus (Status st) s = s\<lparr>requests := requests s + 1, interval := Cleared, attempts := attempts s + 1\<rparr>"
  by (simp add: updateStatus_def Let_def clearIfSet_def)

lemma ticks_until_ceiling:
  assumes "interval s = Running" and "requests s = n" and "attempts s = n"
    and "n \<le> maxAttempts" and "\<forall>i. n \<le> i \<longrightarrow> pending (pages i)"
  shows "requests (ticks pages s) = maxAttempts + 1 \<and> interval (ticks pages s) = Cleared"
  using assms
proof (induction "maxAttempts - n" arbitrary: n s)
  case 0
  then have n: "n = maxAttempts" by simp
  from 0 have "pending (pages n)" by simp
  then obtain st where st: "pages n = Status st"
    by (auto simp: pending_def split: page.splits)
  have "ticks pages s = ticks pages (updateStatus (pages n) s)"
    using 0 by (simp add: ticks_step)
  also have "\<dots> = updateStatus (Status st) s"
    using 0 st n by (simp add: updateStatus_ceiling_running ticks_stopped)
  finally show ?case using 0 n by (simp add: updateStatus_ceiling_running)
next
  case (Suc d)
  then have lt: "n < maxAttempts" by simp
  from Suc have "pending (pages n)" by simp
  then obtain st where st: "pages n = Status st" "st \<notin> set finalStatuses"
    by (auto simp: pending_def split: page.splits)
  let ?s' = "updateStatus (pages n) s"
  have s': "?s' = s\<lparr>requests := n + 1, attempts := n + 1\<rparr>"
    using Suc.prems st lt by (simp add: updateStatus_pending)
  have step: "ticks pages s = ticks pages ?s'"
    using Suc.prems by (simp add: ticks_step)
  have "requests (ticks pages ?s') = maxAttempts + 1 \<and> interval (ticks pages ?s') = Cleared"
  proof (rule Suc.hyps(1) [of "n + 1"])
    show "d = maxAttempts - (n + 1)" using Suc.hyps(2) by simp
    show "interval ?s' = Running" using Suc.prems by (simp add: s')
    show "requests ?s' = n + 1" by (simp add: s')
    show "attempts ?s' = n + 1" by (simp add: s')
    show "n + 1 \<le> maxAttempts" using lt by simp
    show "\<forall>i. n + 1 \<le> i \<longrightarrow> pending (pages i)" using Suc.prems by simp
  qed
  with step show ?case by simp
qed

lemma showSubmissionStatus_first_pending:
  assumes "submissionIdOf url = Some sid" and "pending (pages 0)"
  shows "showSubmissionStatus url pages =
           ticks pages \<lparr>attempts = 1, interval = Running, requests = 1\<rparr>"
proof -
  from assms obtain st where "pages 0 = Status st" "st \<notin> set finalStatuses"
    by (auto simp: pending_def split: page.splits)
  then show ?thesis
    using assms(1)
    by (simp add: showSubmissionStatus_def Let_def updateStatus_pending maxAttempts_def)
qed

text \<open>
  When the first page is pending and the first final page is the one of request
  \<open>k < maxAttempts\<close>, the poll makes \<open>k + 1\<close> requests: it stops at that response.
\<close>

lemma poll_stops_at_later_final:
  assumes "submissionIdOf url = Some sid" and "0 < k" and "k < maxAttempts"
    and "\<forall>i. i < k \<longrightarrow> pending (pages i)" and "final (pages k)"
  shows "requests (showSubmissionStatus url pages) = k + 1
         \<and> interval (showSubmissionStatus url pages) = Cleared"
proof -
  from assms have p0: "pending (pages 0)" by simp
  have "showSubmissionStatus url pages = ticks pages \<lparr>attempts = 1, interval = Running, requests = 1\<rparr>"
    using assms(1) p0 by (rule showSubmissionStatus_first_pending)
  moreover have "requests (ticks pages \<lparr>attempts = 1, interval = Running, requests = 1\<rparr>) = k + 1
      \<and> interval (ticks pages \<lparr>attempts = 1, interval = Running, requests = 1\<rparr>) = Cleared"
    by (rule ticks_until_final [where n = 1]) (use assms(2-) in simp_all)
  ultimately show ?thesis by simp
qed

text \<open>When no page is final, the poll makes \<open>maxAttempts + 1\<close> requests.\<close>

lemma poll_stops_at_ceiling:
  assumes "submissionIdOf url = Some sid" and "\<forall>i. pending (pages i)"
  shows "requests (showSubmissionStatus url pages) = maxAttempts + 1
         \<and> interval (showSubmissionStatus url pages) = Cleared"
proof -
  from assms have p0: "pending (pages 0)" by simp
  have "showSubmissionStatus url pages = ticks pages \<lparr>attempts = 1, interval = Running, requests = 1\<rparr>"
    using assms(1) p0 by (rule showSubmissionStatus_first_pending)
  moreover have "requests (ticks pages \<lparr>attempts = 1, interval = Running, requests = 1\<rparr>) = maxAttempts + 1
      \<and> interval (ticks pages \<lparr>attempts = 1, interval = Running, requests = 1\<rparr>) = Cleared"
    by (rule ticks_until_ceiling [where n = 1]) (use assms(2) in \<open>simp_all add: maxAttempts_def\<close>)
  ultimately show ?thesis by simp
qed

text \<open>
  C3. The claim is that the poll stops exactly at the first response with a final
  status. When the first page fetched is already final (\<open>Accepted\<close>), the first
  \<open>updateStatus\<close> runs while the timer handle is still unset, so nothing is cleared; the
  timer is started afterwards and a second status request is made before the poll
  stops.
\<close>

theorem poll_first_final_not_stopped:
  "submissionIdOf (str ''/practice/solution/12345/'') = Some (str ''12345'')
   \<and> final (acceptedPages 0)
   \<and> interval (updateStatus (acceptedPages 0) \<lparr>attempts = 0, interval = NotSet, requests = 0\<rparr>) = NotSet
   \<and> requests (showSubmissionStatus (str ''/practice/solution/12345/'') acceptedPages) = 2
   \<and> interval (showSubmissionStatus (str ''/practice/solution/12345/'') acceptedPages) = Cleared"
  by code_simp

section \<open>Facts about the queries\<close>

lemma select_single: "map elem (select [sel] par ns) = filter (matches sel) (elements ns)"
  by (induction ns arbitrary: par rule: elements.induct) (simp_all add: elem_def)

lemma query_single: "map elem (query [sel] doc) = filter (matches sel) (elements doc)"
  by (simp add: query_def select_single)

section \<open>Facts about parsePracticeList\<close>

lemma fold_pushPractice:
  "fold (pushPractice sub k) hs acc = acc @ List.map_filter (practiceOf sub k) (map elem hs)"
proof (induction hs arbitrary: acc)
  case Nil
  then show ?case by simp
next
  case (Cons h hs)
  then show ?case
    by (cases "practiceOf sub k (elem h)") (simp_all add: pushPractice_def)
qed

lemma decimal_digits: "list_all (isDigitOf 10) (str ''0123456789'')"
  by code_simp

lemma isDigit_isDigitOf: "isDigit c \<Longrightarrow> isDigitOf 10 c"
  using decimal_digits unfolding isDigit_def list_all_iff by blast

lemma isDigit_not_space: "isDigit c \<Longrightarrow> \<not> isSpace c"
  by (auto simp: isDigit_def isSpace_def)

lemma toNumber_small: "n < 2 ^ 53 \<Longrightarrow> toNumber False n = Num (int n)"
  by (simp add: toNumber_def roundDouble_def)

lemma parseInt_digits:
  assumes "ds \<noteq> []" and "list_all isDigit ds"
  shows "parseInt ds = toNumber False (digitsValue 10 ds)"
proof -
  from assms obtain c r where ds: "ds = c # r" "isDigit c" "list_all isDigit r"
    by (cases ds) auto
  have t: "trimStart ds = ds"
    using ds isDigit_not_space by (simp add: trimStart_def)
  have sign: "c \<noteq> (chr CHR ''-'')" "c \<noteq> (chr CHR ''+'')"
    using ds(2) by (auto simp: isDigit_def)
  have x: "\<not> isDigit (chr CHR ''x'')" "\<not> isDigit (chr CHR ''X'')"
    by (simp_all add: isDigit_def)
  have nox: "\<not> startsWith ds (str ''0x'') \<and> \<not> startsWith ds (str ''0X'')"
  proof (cases r)
    case Nil
    then show ?thesis by (simp add: ds(1) startsWith_def)
  next
    case (Cons e r')
    with ds(3) have "isDigit e" by simp
    with x have "e \<noteq> (chr CHR ''x'')" "e \<noteq> (chr CHR ''X'')" by auto
    then show ?thesis by (simp add: ds(1) Cons startsWith_def)
  qed
  have tw: "takeWhile (isDigitOf 10) ds = ds"
    using assms(2) by (simp add: takeWhile_eq_all_conv list_all_iff isDigit_isDigitOf)
  show ?thesis
    using t sign nox tw ds(1) by (simp add: parseInt_def Let_def)
qed

lemma countSuffix_Cons: "\<exists>c r. countSuffix = c # r \<and> \<not> isDigit c"
  by (simp add: countSuffix_def isDigit_def)

lemma takeWhile_digits_suffix:
  assumes "list_all isDigit ds"
  shows "takeWhile isDigit (ds @ countSuffix @ post) = ds"
    and "dropWhile isDigit (ds @ countSuffix @ post) = countSuffix @ post"
proof -
  obtain c r where c: "countSuffix = c # r" "\<not> isDigit c"
    using countSuffix_Cons by blast
  from assms have all: "\<forall>x\<in>set ds. isDigit x" by (simp add: list_all_iff)
  show "takeWhile isDigit (ds @ countSuffix @ post) = ds"
    unfolding c(1) using all c(2) by (simp add: takeWhile_append2)
  show "dropWhile isDigit (ds @ countSuffix @ post) = countSuffix @ post"
    unfolding c(1) using all c(2) by (simp add: dropWhile_append2)
qed

lemma countMatch_here:
  assumes "ds \<noteq> []" and "list_all isDigit ds"
  shows "countMatch ((chr CHR ''('') # ds @ countSuffix @ post) = Some ds"
  using assms takeWhile_digits_suffix [OF assms(2), of post]
  by (simp add: startsWith_def)

lemma countMatch_sound:
  "countMatch t = Some ds \<Longrightarrow>
   ds \<noteq> [] \<and> list_all isDigit ds \<and> (\<exists>pre post. t = pre @ (chr CHR ''('') # ds @ countSuffix @ post)"
proof (induction t)
  case Nil
  then show ?case by simp
next
  case (Cons c cs)
  show ?case
  proof (cases "c = (chr CHR ''('') \<and> takeWhile isDigit cs \<noteq> [] \<and> startsWith (dropWhile isDigit cs) countSuffix")
    case True
    with Cons.prems have ds: "ds = takeWhile isDigit cs" by simp
    from True have "dropWhile isDigit cs = countSuffix @ drop (length countSuffix) (dropWhile isDigit cs)"
      by (metis append_take_drop_id startsWith_def)
    then have "cs = ds @ countSuffix @ drop (length countSuffix) (dropWhile isDigit cs)"
      using takeWhile_dropWhile_id [of isDigit cs] ds by simp
    then have "c # cs = [] @ (chr CHR ''('') # ds @ countSuffix @ drop (length countSuffix) (dropWhile isDigit cs)"
      using True by simp
    then have ex: "\<exists>pre post. c # cs = pre @ (chr CHR ''('') # ds @ countSuffix @ post"
      by blast
    have "list_all isDigit ds"
      unfolding ds list_all_iff by (meson set_takeWhileD)
    moreover have "ds \<noteq> []" using True ds by simp
    ultimately show ?thesis using ex by simp
  next
    case False
    with Cons.prems have "countMatch cs = Some ds" by auto
    with Cons.IH obtain pre post where
      "ds \<noteq> []" "list_all isDigit ds" "cs = pre @ (chr CHR ''('') # ds @ countSuffix @ post" by blast
    then have "c # cs = (c # pre) @ (chr CHR ''('') # ds @ countSuffix @ post" by simp
    with \<open>ds \<noteq> []\<close> \<open>list_all isDigit ds\<close> show ?thesis by blast
  qed
qed

lemma countMatch_complete:
  assumes "ds \<noteq> []" and "list_all isDigit ds"
  shows "countMatch (pre @ (chr CHR ''('') # ds @ countSuffix @ post) \<noteq> None"
proof (induction pre)
  case Nil
  then show ?case using countMatch_here [OF assms] by simp
next
  case (Cons c pre)
  then show ?case by simp
qed

lemma countMatch_leftmost:
  assumes "ds \<noteq> []" and "list_all isDigit ds" and "(chr CHR ''('') \<notin> set pre"
  shows "countMatch (pre @ (chr CHR ''('') # ds @ countSuffix @ post) = Some ds"
  using assms(3)
proof (induction pre)
  case Nil
  then show ?case using countMatch_here [OF assms(1,2)] by simp
next
  case (Cons c pre)
  then show ?case by auto
qed

lemma countMatch_None_iff:
  "countMatch t = None \<longleftrightarrow>
   \<not> (\<exists>pre ds post. ds \<noteq> [] \<and> list_all isDigit ds \<and> t = pre @ (chr CHR ''('') # ds @ countSuffix @ post)"
proof
  assume "countMatch t = None"
  then show "\<not> (\<exists>pre ds post. ds \<noteq> [] \<and> list_all isDigit ds \<and> t = pre @ (chr CHR ''('') # ds @ countSuffix @ post)"
    using countMatch_complete by blast
next
  assume no: "\<not> (\<exists>pre ds post. ds \<noteq> [] \<and> list_all isDigit ds \<and> t = pre @ (chr CHR ''('') # ds @ countSuffix @ post)"
  show "countMatch t = None"
  proof (cases "countMatch t")
    case None
    then show ?thesis .
  next
    case (Some ds)
    from countMatch_sound [OF Some] no show ?thesis by blast
  qed
qed

lemma practiceOf_fields:
  assumes "practiceOf sub k e = Some p"
  shows "pr_type p = k \<and> pr_groupSubdomain p = sub
    \<and> problemCount p = (case countMatch (countText e) of None \<Rightarrow> Num 0
                         | Some ds \<Rightarrow> toNumber False (digitsValue 10 ds))"
proof -
  have cnt: "(case countMatch (countText e) of None \<Rightarrow> Num 0 | Some ds \<Rightarrow> parseInt ds)
        = (case countMatch (countText e) of None \<Rightarrow> Num 0 | Some ds \<Rightarrow> toNumber False (digitsValue 10 ds))"
  proof (cases "countMatch (countText e)")
    case None
    then show ?thesis by simp
  next
    case (Some ds)
    from countMatch_sound [OF Some] have "parseInt ds = toNumber False (digitsValue 10 ds)"
      by (simp add: parseInt_digits)
    with Some show ?thesis by simp
  qed
  from assms show ?thesis
    unfolding practiceOf_def Let_def cnt [symmetric]
    by (auto split: option.splits)
qed

lemma practiceOf_Some_iff:
  "practiceOf sub k e \<noteq> None \<longleftrightarrow>
   (case first (find [[Tag (str ''h3'')], [Tag (str ''a'')]] e) of
      None \<Rightarrow> None
    | Some l \<Rightarrow> (case attr (str ''href'') (elem l) of None \<Rightarrow> None | Some h \<Rightarrow> matchId h)) \<noteq> None"
  by (simp add: practiceOf_def Let_def split: option.splits)

lemma map_filter_as_concat:
  "List.map_filter f xs = concat (map (\<lambda>x. case f x of None \<Rightarrow> [] | Some y \<Rightarrow> [y]) xs)"
  by (induction xs) (simp_all add: List.map_filter_simps split: option.splits)

lemma spec_practiceList_practice_only:
  assumes "filter (matches [Tag (str ''li''), Class (str ''contest-info'')]) es = []"
  shows "concat (map (spec_recordsOf sub) es)
     = List.map_filter (practiceOf sub practice)
         (filter (matches [Tag (str ''li''), Class (str ''practice-info'')]) es)"
  using assms
  by (induction es) (simp_all add: spec_recordsOf_def List.map_filter_simps split: if_splits option.splits)

lemma spec_practiceList_contest_only:
  assumes "filter (matches [Tag (str ''li''), Class (str ''practice-info'')]) es = []"
  shows "concat (map (spec_recordsOf sub) es)
     = List.map_filter (practiceOf sub contest)
         (filter (matches [Tag (str ''li''), Class (str ''contest-info'')]) es)"
  using assms
  by (induction es) (simp_all add: spec_recordsOf_def List.map_filter_simps split: if_splits option.splits)

lemma parsePracticeList_eq:
  "parsePracticeList doc sub =
     List.map_filter (practiceOf sub practice)
       (filter (matches [Tag (str ''li''), Class (str ''practice-info'')]) (elements doc))
     @ List.map_filter (practiceOf sub contest)
       (filter (matches [Tag (str ''li''), Class (str ''contest-info'')]) (elements doc))"
  by (simp add: parsePracticeList_def fold_pushPractice query_single)

lemma parsePracticeList_one_family:
  assumes "filter (matches [Tag (str ''li''), Class (str ''practice-info'')]) (elements doc) = []
           \<or> filter (matches [Tag (str ''li''), Class (str ''contest-info'')]) (elements doc) = []"
  shows "parsePracticeList doc sub = spec_practiceList doc sub"
  using assms
proof
  assume a: "filter (matches [Tag (str ''li''), Class (str ''practice-info'')]) (elements doc) = []"
  show ?thesis
    unfolding parsePracticeList_eq spec_practiceList_def spec_practiceList_contest_only [OF a] a
    by (simp add: List.map_filter_simps)
next
  assume a: "filter (matches [Tag (str ''li''), Class (str ''contest-info'')]) (elements doc) = []"
  show ?thesis
    unfolding parsePracticeList_eq spec_practiceList_def spec_practiceList_practice_only [OF a] a
    by (simp add: List.map_filter_simps)
qed

text \<open>
  C7, the claim as it is worded, is refuted. On a group page whose contest item stands
  before its practice item, the records in document order are the contest record and then
  the practice record; \<open>parsePracticeList\<close> returns the practice record first, since it
  runs the loop over the practice items to its end before the loop over the contest items.
\<close>

theorem parsePracticeList_document_order_counterexample:
  "spec_practiceList groupPage (str ''cs101'') =
     [\<lparr>pr_id = (str ''c1''), pr_name = (str ''Contest''), pr_groupSubdomain = (str ''cs101''), problemCount = Num 7,
       pr_url = (str ''http://cs101.openjudge.cn/c1/''), pr_type = contest\<rparr>,
      \<lparr>pr_id = (str ''p1''), pr_name = (str ''P1''), pr_groupSubdomain = (str ''cs101''), problemCount = Num 0,
       pr_url = (str ''http://cs101.openjudge.cn/p1/''), pr_type = practice\<rparr>]
   \<and> parsePracticeList groupPage (str ''cs101'') =
     [\<lparr>pr_id = (str ''p1''), pr_name = (str ''P1''), pr_groupSubdomain = (str ''cs101''), problemCount = Num 0,
       pr_url = (str ''http://cs101.openjudge.cn/p1/''), pr_type = practice\<rparr>,
      \<lparr>pr_id = (str ''c1''), pr_name = (str ''Contest''), pr_groupSubdomain = (str ''cs101''), problemCount = Num 7,
       pr_url = (str ''http://cs101.openjudge.cn/c1/''), pr_type = contest\<rparr>]"
  by code_simp

text \<open>
  C7, amended. \<open>parsePracticeList\<close> returns the records of the \<open>li.practice-info\<close>
  elements, taken in document order, followed by the records of the \<open>li.contest-info\<close>
  elements, taken in document order; this is the document order of all the items when one
  of the two families is empty. A record carries the kind of its family, and its
  \<open>problemCount\<close> is what \<open>parseInt\<close> makes of the digits of the leftmost match of the count
  pattern (an opening parenthesis, one or more digits, the localized word, a closing
  parenthesis) in the text of the parent of the title link: the double nearest to the
  number the digits write, which is that number when it is below \<open>2 ^ 53\<close>; and it is 0
  when that text has no match. The text has no match exactly when no part of it has that
  form.
\<close>

theorem parsePracticeList_families:
  "parsePracticeList doc sub =
     List.map_filter (practiceOf sub practice)
       (filter (matches [Tag (str ''li''), Class (str ''practice-info'')]) (elements doc))
     @ List.map_filter (practiceOf sub contest)
       (filter (matches [Tag (str ''li''), Class (str ''contest-info'')]) (elements doc))
   \<and> (filter (matches [Tag (str ''li''), Class (str ''practice-info'')]) (elements doc) = []
        \<or> filter (matches [Tag (str ''li''), Class (str ''contest-info'')]) (elements doc) = [] \<longrightarrow>
        parsePracticeList doc sub = spec_practiceList doc sub)
   \<and> (practiceOf sub k e = Some p \<longrightarrow>
        pr_type p = k
        \<and> problemCount p = (case countMatch (countText e) of None \<Rightarrow> Num 0
                             | Some ds \<Rightarrow> toNumber False (digitsValue 10 ds)))
   \<and> (n < 2 ^ 53 \<longrightarrow> toNumber False n = Num (int n))
   \<and> (countMatch t = Some ds \<longrightarrow>
        ds \<noteq> [] \<and> list_all isDigit ds \<and> (\<exists>pre post. t = pre @ (str ''('') @ ds @ countSuffix @ post))
   \<and> (ds \<noteq> [] \<and> list_all isDigit ds \<and> (chr CHR ''('') \<notin> set pre \<longrightarrow>
        countMatch (pre @ (str ''('') @ ds @ countSuffix @ post) = Some ds)
   \<and> (countMatch t = None \<longleftrightarrow>
        \<not> (\<exists>pre ds post. ds \<noteq> [] \<and> list_all isDigit ds \<and> t = pre @ (str ''('') @ ds @ countSuffix @ post))"
proof -
  have a: "parsePracticeList doc sub =
     List.map_filter (practiceOf sub practice)
       (filter (matches [Tag (str ''li''), Class (str ''practice-info'')]) (elements doc))
     @ List.map_filter (practiceOf sub contest)
       (filter (matches [Tag (str ''li''), Class (str ''contest-info'')]) (elements doc))"
    by (rule parsePracticeList_eq)
  have a': "filter (matches [Tag (str ''li''), Class (str ''practice-info'')]) (elements doc) = []
        \<or> filter (matches [Tag (str ''li''), Class (str ''contest-info'')]) (elements doc) = [] \<longrightarrow>
        parsePracticeList doc sub = spec_practiceList doc sub"
    using parsePracticeList_one_family [of doc sub] by blast
  have b: "practiceOf sub k e = Some p \<longrightarrow>
        pr_type p = k
        \<and> problemCount p = (case countMatch (countText e) of None \<Rightarrow> Num 0
                             | Some ds \<Rightarrow> toNumber False (digitsValue 10 ds))"
    using practiceOf_fields [of sub k e p] by simp
  have b': "n < 2 ^ 53 \<longrightarrow> toNumber False n = Num (int n)"
    using toNumber_small [of n] by blast
  have c: "countMatch t = Some ds \<longrightarrow>
        ds \<noteq> [] \<and> list_all isDigit ds \<and> (\<exists>pre post. t = pre @ (str ''('') @ ds @ countSuffix @ post)"
    using countMatch_sound [of t ds] by simp
  have d: "ds \<noteq> [] \<and> list_all isDigit ds \<and> (chr CHR ''('') \<notin> set pre \<longrightarrow>
        countMatch (pre @ (str ''('') @ ds @ countSuffix @ post) = Some ds"
    using countMatch_leftmost [of ds pre post] by simp
  have e: "countMatch t = None \<longleftrightarrow>
        \<not> (\<exists>pre ds post. ds \<noteq> [] \<and> list_all isDigit ds \<and> t = pre @ (str ''('') @ ds @ countSuffix @ post)"
    using countMatch_None_iff [of t] by simp
  from a a' b b' c d e show ?thesis by (intro conjI)
qed

theorem parsePracticeList_families_witness:
  "parsePracticeList groupPage (str ''cs101'') =
     [\<lparr>pr_id = (str ''p1''), pr_name = (str ''P1''), pr_groupSubdomain = (str ''cs101''), problemCount = Num 0,
       pr_url = (str ''http://cs101.openjudge.cn/p1/''), pr_type = practice\<rparr>,
      \<lparr>pr_id = (str ''c1''), pr_name = (str ''Contest''), pr_groupSubdomain = (str ''cs101''), problemCount = Num 7,
       pr_url = (str ''http://cs101.openjudge.cn/c1/''), pr_type = contest\<rparr>]
   \<and> countMatch ((str ''Contest (12'') @ countSuffix) = Some (str ''12'')
   \<and> toNumber False 12 = Num 12
   \<and> map problemCount (parsePracticeList [longCountItem] (str ''cs101'')) = [Num 9007199254740992]
   \<and> parsePracticeList [longCountItem] (str ''cs101'') = spec_practiceList [longCountItem] (str ''cs101'')"
proof -
  let ?p = "\<lparr>pr_id = (str ''c1''), pr_name = (str ''Contest''), pr_groupSubdomain = (str ''cs101''), problemCount = Num 7,
       pr_url = (str ''http://cs101.openjudge.cn/c1/''), pr_type = contest\<rparr>"
  let ?q = "\<lparr>pr_id = (str ''p1''), pr_name = (str ''P1''), pr_groupSubdomain = (str ''cs101''), problemCount = Num 0,
       pr_url = (str ''http://cs101.openjudge.cn/p1/''), pr_type = practice\<rparr>"
  have f1: "filter (matches [Tag (str ''li''), Class (str ''practice-info'')]) (elements groupPage) = [practiceItem]"
    by code_simp
  have f2: "filter (matches [Tag (str ''li''), Class (str ''contest-info'')]) (elements groupPage) = [contestItem]"
    by code_simp
  have h1: "practiceOf (str ''cs101'') contest contestItem = Some ?p" by code_simp
  have h2: "practiceOf (str ''cs101'') practice practiceItem = Some ?q" by code_simp
  have h3: "(str ''12'') \<noteq> [] \<and> list_all isDigit (str ''12'') \<and> (chr CHR ''('') \<notin> set (str ''Contest '')" by code_simp
  note T = parsePracticeList_families [of groupPage "(str ''cs101'')" contest contestItem ?p 12
         "(str ''Contest (12'') @ countSuffix" "(str ''12'')" "(str ''Contest '')" "[]"]
  from T [THEN conjunct1] have A: "parsePracticeList groupPage (str ''cs101'') = [?q, ?p]"
    by (simp add: f1 [simplified] f2 [simplified] h1 [simplified] h2 [simplified] List.map_filter_simps)
  from T [THEN conjunct2, THEN conjunct2, THEN conjunct1] h1 have B: "pr_type ?p = contest" by simp
  from T [THEN conjunct2, THEN conjunct2, THEN conjunct2, THEN conjunct1]
  have C: "toNumber False 12 = Num 12" by simp
  from T [THEN conjunct2, THEN conjunct2, THEN conjunct2, THEN conjunct2, THEN conjunct2, THEN conjunct1] h3
  have D: "countMatch ((str ''Contest (12'') @ countSuffix) = Some (str ''12'')" by simp
  have g1: "filter (matches [Tag (str ''li''), Class (str ''practice-info'')]) (elements [longCountItem]) = [longCountItem]"
    by code_simp
  have g2: "filter (matches [Tag (str ''li''), Class (str ''contest-info'')]) (elements [longCountItem]) = []"
    by code_simp
  have "practiceOf (str ''cs101'') practice longCountItem \<noteq> None"
    unfolding practiceOf_Some_iff by code_simp
  then obtain r where r: "practiceOf (str ''cs101'') practice longCountItem = Some r" by blast
  have cm: "countMatch (countText longCountItem) = Some (str ''9007199254740993'')" by code_simp
  have dv: "digitsValue 10 (str ''9007199254740993'') = 9007199254740993"
    by (simp add: digitsValue_def digitValue_def)
  have rd: "toNumber False 9007199254740993 = Num 9007199254740992"
    by (simp add: toNumber_def roundDouble_def Let_def)
  note U = parsePracticeList_families [of "[longCountItem]" "(str ''cs101'')" practice longCountItem r]
  from U [THEN conjunct2, THEN conjunct2, THEN conjunct1] r cm dv rd
  have "problemCount r = Num 9007199254740992" by simp
  moreover from U [THEN conjunct1] g1 g2 r
  have "parsePracticeList [longCountItem] (str ''cs101'') = [r]"
    by (simp add: List.map_filter_simps)
  ultimately have E: "map problemCount (parsePracticeList [longCountItem] (str ''cs101'')) = [Num 9007199254740992]"
    by simp
  from U [THEN conjunct2, THEN conjunct1] g2
  have F: "parsePracticeList [longCountItem] (str ''cs101'') = spec_practiceList [longCountItem] (str ''cs101'')"
    by simp
  from A B C D E F show ?thesis by simp
qed

section \<open>Facts about parseProblemList\<close>

lemma primaryStep_other:
  "\<not> isPrimaryRow (elem h) \<Longrightarrow> primaryStep pid sub cid h st = st"
  by (simp add: primaryStep_def)

lemma primaryStep_skip:
  "isPrimaryRow (elem h) \<Longrightarrow> primaryProblem pid sub cid (elem h) = None \<Longrightarrow>
   primaryStep pid sub cid h st = (True, snd st)"
  by (simp add: primaryStep_def)

lemma primaryStep_push:
  "isPrimaryRow (elem h) \<Longrightarrow> primaryProblem pid sub cid (elem h) = Some p \<Longrightarrow>
   primaryStep pid sub cid h st = (True, snd st @ [p])"
  by (simp add: primaryStep_def)

lemma fold_primaryStep:
  "fold (primaryStep pid sub cid) hs st =
     (fst st \<or> list_ex isPrimaryRow (map elem hs),
      snd st @ List.map_filter (\<lambda>r. if isPrimaryRow r then primaryProblem pid sub cid r else None)
                 (map elem hs))"
proof (induction hs arbitrary: st)
  case Nil
  then show ?case by simp
next
  case (Cons h hs)
  show ?case
  proof (cases "isPrimaryRow (elem h)")
    case False
    then show ?thesis by (simp add: Cons.IH primaryStep_other)
  next
    case True
    then show ?thesis
      by (cases "primaryProblem pid sub cid (elem h)")
         (simp_all add: Cons.IH primaryStep_skip primaryStep_push)
  qed
qed

lemma genericStep_skip:
  "genericProblem pid sub cid (elem h) = None \<Longrightarrow> genericStep pid sub cid h acc = acc"
  by (simp add: genericStep_def)

lemma genericStep_push:
  "genericProblem pid sub cid (elem h) = Some p \<Longrightarrow> genericStep pid sub cid h acc = acc @ [p]"
  by (simp add: genericStep_def)

lemma fold_genericStep:
  "fold (genericStep pid sub cid) hs acc =
     acc @ List.map_filter (genericProblem pid sub cid) (map elem hs)"
proof (induction hs arbitrary: acc)
  case Nil
  then show ?case by simp
next
  case (Cons h hs)
  then show ?case
    by (cases "genericProblem pid sub cid (elem h)") (simp_all add: genericStep_skip genericStep_push)
qed

lemma map_filter_no_primary:
  "\<not> list_ex isPrimaryRow rows \<Longrightarrow>
   List.map_filter (\<lambda>r. if isPrimaryRow r then f r else None) rows = []"
  by (induction rows) simp_all

lemma parseProblemList_generic:
  assumes "\<not> list_ex isPrimaryRow (map elem (tableRows doc))"
  shows "parseProblemList doc pid sub =
           List.map_filter (genericProblem pid sub (contestIdOf doc)) (map elem (tableRows doc))"
  using assms
  by (simp add: parseProblemList_def fold_primaryStep fold_genericStep map_filter_no_primary)

lemma parseProblemList_primary:
  assumes "list_ex isPrimaryRow (map elem (tableRows doc))"
  shows "parseProblemList doc pid sub =
           List.map_filter (\<lambda>r. if isPrimaryRow r then primaryProblem pid sub (contestIdOf doc) r else None)
             (map elem (tableRows doc))"
  using assms
  by (simp add: parseProblemList_def fold_primaryStep)

lemma genericProblem_fields:
  assumes "genericProblem pid sub cid r = Some p"
  shows "2 \<le> length (find [[Tag (str ''td'')]] r)
    \<and> pb_id p = cellText (find [[Tag (str ''td'')]] r) 0
    \<and> pb_title p = cellText (find [[Tag (str ''td'')]] r) 1
    \<and> acceptanceRate p = (if 2 < length (find [[Tag (str ''td'')]] r)
                           then Some (cellText (find [[Tag (str ''td'')]] r) 2) else None)
    \<and> passedCount p = (if 3 < length (find [[Tag (str ''td'')]] r)
                        then Some (parseInt (cellText (find [[Tag (str ''td'')]] r) 3)) else None)
    \<and> attemptCount p = (if 4 < length (find [[Tag (str ''td'')]] r)
                         then Some (parseInt (cellText (find [[Tag (str ''td'')]] r) 4)) else None)
    \<and> contestId p = cid"
  using assms by (auto simp: genericProblem_def Let_def split: if_splits)

lemma genericProblem_Some:
  assumes "2 \<le> length (find [[Tag (str ''td'')]] r)"
    and "cellText (find [[Tag (str ''td'')]] r) 0 \<noteq> []" and "cellText (find [[Tag (str ''td'')]] r) 1 \<noteq> []"
  shows "\<exists>p. genericProblem pid sub cid r = Some p"
  using assms by (simp add: genericProblem_def Let_def)

lemma trim_empty_iff: "trim s = [] \<longleftrightarrow> list_all isSpace s"
proof
  assume "trim s = []"
  then have all: "\<forall>x\<in>set (dropWhile isSpace s). isSpace x"
    by (simp add: trim_def trimEnd_def trimStart_def dropWhile_eq_Nil_conv)
  have "dropWhile isSpace s = []"
  proof (rule ccontr)
    assume ne: "dropWhile isSpace s \<noteq> []"
    then have "\<not> isSpace (hd (dropWhile isSpace s))" by (rule hd_dropWhile)
    moreover from ne have "hd (dropWhile isSpace s) \<in> set (dropWhile isSpace s)" by simp
    ultimately show False using all by blast
  qed
  then show "list_all isSpace s" by (simp add: dropWhile_eq_Nil_conv list_all_iff)
next
  assume "list_all isSpace s"
  then have d: "dropWhile isSpace s = []" by (simp add: dropWhile_eq_Nil_conv list_all_iff)
  show "trim s = []" unfolding trim_def trimEnd_def trimStart_def d by simp
qed

lemma cellText_empty_iff:
  "cellText cells i = [] \<longleftrightarrow>
   list_all isSpace (text_of (map elem (find [[Tag (str ''a'')]] (elem (cells ! i)))))"
  by (simp add: cellText_def trim_empty_iff)

lemma genericProblem_None_iff:
  "genericProblem pid sub cid r = None \<longleftrightarrow>
   length (find [[Tag (str ''td'')]] r) < 2
   \<or> cellText (find [[Tag (str ''td'')]] r) 0 = []
   \<or> cellText (find [[Tag (str ''td'')]] r) 1 = []"
  by (auto simp: genericProblem_def Let_def)

text \<open>
  C2 as stated fails: a page with no primary-layout row and three generic rows, each
  with an anchor in its first two cells, gives two problems when the title anchor of one
  row has no text: a row whose id or title text is empty is skipped.
\<close>

theorem parseProblemList_blank_anchor_counterexample:
  "\<not> list_ex isPrimaryRow (map elem (tableRows (tablePage blankTitleRows)))
   \<and> map elem (tableRows (tablePage blankTitleRows)) = blankTitleRows
   \<and> length blankTitleRows = 3
   \<and> list_all hasTwoAnchors blankTitleRows
   \<and> map pb_id (parseProblemList (tablePage blankTitleRows) (str ''p'') (str ''g'')) = [(str ''01''), (str ''03'')]"
  by code_simp

text \<open>
  C2, amended. \<open>parseProblemList\<close> uses the generic positional layout if and only if no
  row has both a \<open>td.problem-id\<close> cell and a \<open>td.title\<close> cell: in that case the result is
  what the generic layout gives for the rows, and otherwise it is what the primary
  layout gives for the rows that have both cells. A problem of the generic layout comes
  from a row of at least two \<open>td\<close> cells and takes its id, title, acceptance rate, passed
  count and attempt count from the anchor texts of the cells 0 to 4, a field being
  absent when the row has no such cell. A row gives no problem (it is skipped) exactly
  when it has fewer than two cells or the anchor text of its first or of its second cell
  is blank; an anchor text is blank exactly when all its code units are white space for
  \<open>trim\<close>, the no-break space included. For a page with no primary-layout row and three
  rows, each with at least two cells whose anchor texts in the first two cells are not
  blank, the result is exactly the three problems of these rows.
\<close>

theorem parseProblemList_layouts:
  "(\<not> list_ex isPrimaryRow (map elem (tableRows doc)) \<longrightarrow>
      parseProblemList doc pid sub =
        List.map_filter (genericProblem pid sub (contestIdOf doc)) (map elem (tableRows doc)))
   \<and> (list_ex isPrimaryRow (map elem (tableRows doc)) \<longrightarrow>
      parseProblemList doc pid sub =
        List.map_filter (\<lambda>r. if isPrimaryRow r then primaryProblem pid sub (contestIdOf doc) r else None)
          (map elem (tableRows doc)))
   \<and> (genericProblem pid sub cid r = Some p \<longrightarrow>
        2 \<le> length (find [[Tag (str ''td'')]] r)
        \<and> pb_id p = cellText (find [[Tag (str ''td'')]] r) 0
        \<and> pb_title p = cellText (find [[Tag (str ''td'')]] r) 1
        \<and> acceptanceRate p = (if 2 < length (find [[Tag (str ''td'')]] r)
                               then Some (cellText (find [[Tag (str ''td'')]] r) 2) else None)
        \<and> passedCount p = (if 3 < length (find [[Tag (str ''td'')]] r)
                            then Some (parseInt (cellText (find [[Tag (str ''td'')]] r) 3)) else None)
        \<and> attemptCount p = (if 4 < length (find [[Tag (str ''td'')]] r)
                             then Some (parseInt (cellText (find [[Tag (str ''td'')]] r) 4)) else None))
   \<and> (genericProblem pid sub cid r = None \<longleftrightarrow>
        length (find [[Tag (str ''td'')]] r) < 2
        \<or> cellText (find [[Tag (str ''td'')]] r) 0 = []
        \<or> cellText (find [[Tag (str ''td'')]] r) 1 = [])
   \<and> (cellText cells i = [] \<longleftrightarrow>
        list_all isSpace (text_of (map elem (find [[Tag (str ''a'')]] (elem (cells ! i))))))
   \<and> (map elem (tableRows doc) = [r1, r2, r3]
        \<and> (\<forall>r \<in> {r1, r2, r3}. \<not> isPrimaryRow r \<and> 2 \<le> length (find [[Tag (str ''td'')]] r)
               \<and> cellText (find [[Tag (str ''td'')]] r) 0 \<noteq> [] \<and> cellText (find [[Tag (str ''td'')]] r) 1 \<noteq> [])
      \<longrightarrow> (\<exists>p1 p2 p3. parseProblemList doc pid sub = [p1, p2, p3]
              \<and> genericProblem pid sub (contestIdOf doc) r1 = Some p1
              \<and> genericProblem pid sub (contestIdOf doc) r2 = Some p2
              \<and> genericProblem pid sub (contestIdOf doc) r3 = Some p3))"
proof -
  have c1: "genericProblem pid sub cid r = None \<longleftrightarrow>
        length (find [[Tag (str ''td'')]] r) < 2
        \<or> cellText (find [[Tag (str ''td'')]] r) 0 = []
        \<or> cellText (find [[Tag (str ''td'')]] r) 1 = []"
    by (rule genericProblem_None_iff)
  have c2: "cellText cells i = [] \<longleftrightarrow>
        list_all isSpace (text_of (map elem (find [[Tag (str ''a'')]] (elem (cells ! i)))))"
    by (rule cellText_empty_iff)
  have a: "\<not> list_ex isPrimaryRow (map elem (tableRows doc)) \<longrightarrow>
      parseProblemList doc pid sub =
        List.map_filter (genericProblem pid sub (contestIdOf doc)) (map elem (tableRows doc))"
    using parseProblemList_generic by blast
  have b: "list_ex isPrimaryRow (map elem (tableRows doc)) \<longrightarrow>
      parseProblemList doc pid sub =
        List.map_filter (\<lambda>r. if isPrimaryRow r then primaryProblem pid sub (contestIdOf doc) r else None)
          (map elem (tableRows doc))"
    using parseProblemList_primary by blast
  have c: "genericProblem pid sub cid r = Some p \<longrightarrow>
        2 \<le> length (find [[Tag (str ''td'')]] r)
        \<and> pb_id p = cellText (find [[Tag (str ''td'')]] r) 0
        \<and> pb_title p = cellText (find [[Tag (str ''td'')]] r) 1
        \<and> acceptanceRate p = (if 2 < length (find [[Tag (str ''td'')]] r)
                               then Some (cellText (find [[Tag (str ''td'')]] r) 2) else None)
        \<and> passedCount p = (if 3 < length (find [[Tag (str ''td'')]] r)
                            then Some (parseInt (cellText (find [[Tag (str ''td'')]] r) 3)) else None)
        \<and> attemptCount p = (if 4 < length (find [[Tag (str ''td'')]] r)
                             then Some (parseInt (cellText (find [[Tag (str ''td'')]] r) 4)) else None)"
    using genericProblem_fields [of pid sub cid r p] by blast
  have d: "map elem (tableRows doc) = [r1, r2, r3]
        \<and> (\<forall>r \<in> {r1, r2, r3}. \<not> isPrimaryRow r \<and> 2 \<le> length (find [[Tag (str ''td'')]] r)
               \<and> cellText (find [[Tag (str ''td'')]] r) 0 \<noteq> [] \<and> cellText (find [[Tag (str ''td'')]] r) 1 \<noteq> [])
      \<longrightarrow> (\<exists>p1 p2 p3. parseProblemList doc pid sub = [p1, p2, p3]
              \<and> genericProblem pid sub (contestIdOf doc) r1 = Some p1
              \<and> genericProblem pid sub (contestIdOf doc) r2 = Some p2
              \<and> genericProblem pid sub (contestIdOf doc) r3 = Some p3)"
  proof
    assume h: "map elem (tableRows doc) = [r1, r2, r3]
        \<and> (\<forall>r \<in> {r1, r2, r3}. \<not> isPrimaryRow r \<and> 2 \<le> length (find [[Tag (str ''td'')]] r)
               \<and> cellText (find [[Tag (str ''td'')]] r) 0 \<noteq> [] \<and> cellText (find [[Tag (str ''td'')]] r) 1 \<noteq> [])"
    then have rows: "map elem (tableRows doc) = [r1, r2, r3]" by simp
    from h have np: "\<not> list_ex isPrimaryRow (map elem (tableRows doc))" by simp
    from h obtain p1 where p1: "genericProblem pid sub (contestIdOf doc) r1 = Some p1"
      using genericProblem_Some [of r1 pid sub "contestIdOf doc"] by auto
    from h obtain p2 where p2: "genericProblem pid sub (contestIdOf doc) r2 = Some p2"
      using genericProblem_Some [of r2 pid sub "contestIdOf doc"] by auto
    from h obtain p3 where p3: "genericProblem pid sub (contestIdOf doc) r3 = Some p3"
      using genericProblem_Some [of r3 pid sub "contestIdOf doc"] by auto
    have "parseProblemList doc pid sub = [p1, p2, p3]"
      unfolding parseProblemList_generic [OF np] rows by (simp add: p1 p2 p3)
    with p1 p2 p3 show "\<exists>p1 p2 p3. parseProblemList doc pid sub = [p1, p2, p3]
              \<and> genericProblem pid sub (contestIdOf doc) r1 = Some p1
              \<and> genericProblem pid sub (contestIdOf doc) r2 = Some p2
              \<and> genericProblem pid sub (contestIdOf doc) r3 = Some p3" by blast
  qed
  from a b c c1 c2 d show ?thesis by (intro conjI)
qed

theorem parseProblemList_layouts_witness:
  "parseProblemList (tablePage genericRows) (str ''p'') (str ''g'') =
     [\<lparr>pb_id = (str ''01''), pb_title = (str ''A+B''), practiceId = (str ''p''), pb_groupSubdomain = (str ''g''),
       acceptanceRate = Some (str ''50%''), passedCount = Some (Num 10), attemptCount = Some (Num 20),
       pb_url = (str ''http://g.openjudge.cn/p/01/''), contestId = None\<rparr>,
      \<lparr>pb_id = (str ''02''), pb_title = (str ''Sum''), practiceId = (str ''p''), pb_groupSubdomain = (str ''g''),
       acceptanceRate = None, passedCount = None, attemptCount = None,
       pb_url = (str ''http://g.openjudge.cn/p/02/''), contestId = None\<rparr>,
      \<lparr>pb_id = (str ''03''), pb_title = (str ''Max''), practiceId = (str ''p''), pb_groupSubdomain = (str ''g''),
       acceptanceRate = Some (str ''25%''), passedCount = None, attemptCount = None,
       pb_url = (str ''http://g.openjudge.cn/p/03/''), contestId = None\<rparr>]
   \<and> parseProblemList (tablePage primaryRows) (str ''p'') (str ''g'') =
     [\<lparr>pb_id = (str ''B01''), pb_title = (str ''Hello''), practiceId = (str ''p''), pb_groupSubdomain = (str ''g''),
       acceptanceRate = None, passedCount = None, attemptCount = Some (Num 42),
       pb_url = (str ''http://g.openjudge.cn/p/B01/''), contestId = None\<rparr>]
   \<and> genericProblem (str ''p'') (str ''g'') None (nbspTitleRows ! 1) = None
   \<and> map pb_id (parseProblemList (tablePage nbspTitleRows) (str ''p'') (str ''g'')) = [(str ''01''), (str ''03'')]"
proof -
  let ?p1 = "\<lparr>pb_id = (str ''01''), pb_title = (str ''A+B''), practiceId = (str ''p''), pb_groupSubdomain = (str ''g''),
       acceptanceRate = Some (str ''50%''), passedCount = Some (Num 10), attemptCount = Some (Num 20),
       pb_url = (str ''http://g.openjudge.cn/p/01/''), contestId = None\<rparr>"
  let ?p2 = "\<lparr>pb_id = (str ''02''), pb_title = (str ''Sum''), practiceId = (str ''p''), pb_groupSubdomain = (str ''g''),
       acceptanceRate = None, passedCount = None, attemptCount = None,
       pb_url = (str ''http://g.openjudge.cn/p/02/''), contestId = None\<rparr>"
  let ?p3 = "\<lparr>pb_id = (str ''03''), pb_title = (str ''Max''), practiceId = (str ''p''), pb_groupSubdomain = (str ''g''),
       acceptanceRate = Some (str ''25%''), passedCount = None, attemptCount = None,
       pb_url = (str ''http://g.openjudge.cn/p/03/''), contestId = None\<rparr>"
  let ?q = "\<lparr>pb_id = (str ''B01''), pb_title = (str ''Hello''), practiceId = (str ''p''), pb_groupSubdomain = (str ''g''),
       acceptanceRate = None, passedCount = None, attemptCount = Some (Num 42),
       pb_url = (str ''http://g.openjudge.cn/p/B01/''), contestId = None\<rparr>"
  let ?r1 = "genericRows ! 0" and ?r2 = "genericRows ! 1" and ?r3 = "genericRows ! 2"
  have rows: "map elem (tableRows (tablePage genericRows)) = [?r1, ?r2, ?r3]" by code_simp
  have cid: "contestIdOf (tablePage genericRows) = None" by code_simp
  have ok: "\<forall>r \<in> {?r1, ?r2, ?r3}. \<not> isPrimaryRow r \<and> 2 \<le> length (find [[Tag (str ''td'')]] r)
               \<and> cellText (find [[Tag (str ''td'')]] r) 0 \<noteq> [] \<and> cellText (find [[Tag (str ''td'')]] r) 1 \<noteq> []"
    by code_simp
  have g1: "genericProblem (str ''p'') (str ''g'') None ?r1 = Some ?p1" by code_simp
  have g2: "genericProblem (str ''p'') (str ''g'') None ?r2 = Some ?p2" by code_simp
  have g3: "genericProblem (str ''p'') (str ''g'') None ?r3 = Some ?p3" by code_simp
  note T = parseProblemList_layouts [of "tablePage genericRows" "(str ''p'')" "(str ''g'')" None ?r1 ?p1 _ _ ?r1 ?r2 ?r3]
  from T [THEN conjunct2, THEN conjunct2, THEN conjunct2, THEN conjunct2, THEN conjunct2] rows ok
  have A: "parseProblemList (tablePage genericRows) (str ''p'') (str ''g'') = [?p1, ?p2, ?p3]"
    unfolding cid g1 g2 g3 by simp
  from T [THEN conjunct2, THEN conjunct2, THEN conjunct1] g1
  have C: "pb_id ?p1 = cellText (find [[Tag (str ''td'')]] ?r1) 0" by simp
  have np: "\<not> list_ex isPrimaryRow (map elem (tableRows (tablePage genericRows)))" by code_simp
  from T [THEN conjunct1] np
  have G: "parseProblemList (tablePage genericRows) (str ''p'') (str ''g'') =
        List.map_filter (genericProblem (str ''p'') (str ''g'') (contestIdOf (tablePage genericRows)))
          (map elem (tableRows (tablePage genericRows)))" by simp
  have pr: "list_ex isPrimaryRow (map elem (tableRows (tablePage primaryRows)))" by code_simp
  have mf: "List.map_filter (\<lambda>r. if isPrimaryRow r then primaryProblem (str ''p'') (str ''g'') (contestIdOf (tablePage primaryRows)) r else None)
          (map elem (tableRows (tablePage primaryRows))) = [?q]" by code_simp
  note U = parseProblemList_layouts [of "tablePage primaryRows" "(str ''p'')" "(str ''g'')" None ?r1 ?p1 _ _ ?r1 ?r2 ?r3]
  from U [THEN conjunct2, THEN conjunct1] pr mf
  have B: "parseProblemList (tablePage primaryRows) (str ''p'') (str ''g'') = [?q]" by simp
  let ?n = "nbspTitleRows ! 1"
  have blank: "list_all isSpace (text_of (map elem (find [[Tag (str ''a'')]]
                 (elem (find [[Tag (str ''td'')]] ?n ! 1)))))" by code_simp
  note V = parseProblemList_layouts [of "tablePage nbspTitleRows" "(str ''p'')" "(str ''g'')" None ?n ?p1
      "find [[Tag (str ''td'')]] ?n" 1]
  from V [THEN conjunct2, THEN conjunct2, THEN conjunct2, THEN conjunct2, THEN conjunct1] blank
  have "cellText (find [[Tag (str ''td'')]] ?n) 1 = []" by simp
  with V [THEN conjunct2, THEN conjunct2, THEN conjunct2, THEN conjunct1]
  have N: "genericProblem (str ''p'') (str ''g'') None ?n = None" by simp
  have nq: "\<not> list_ex isPrimaryRow (map elem (tableRows (tablePage nbspTitleRows)))" by code_simp
  have mg: "map pb_id (List.map_filter (genericProblem (str ''p'') (str ''g'') (contestIdOf (tablePage nbspTitleRows)))
          (map elem (tableRows (tablePage nbspTitleRows)))) = [(str ''01''), (str ''03'')]" by code_simp
  from V [THEN conjunct1] nq mg
  have M: "map pb_id (parseProblemList (tablePage nbspTitleRows) (str ''p'') (str ''g'')) = [(str ''01''), (str ''03'')]"
    by simp
  from A B C G N M show ?thesis by simp
qed

section \<open>Facts about parseProblemDetail\<close>













end
